theory Spec2Isabelle
  imports
    Main
    "HOL-Library.Sublist"
    "HOL-Library.Char_ord"
    "HOL-Library.List_Lexorder"
    "HOL-Library.Multiset"
begin

section \<open>Python values\<close>

text \<open>
  The backend handles parsed JSON documents (request bodies, the stored CV content, the
  template catalog). A document is a value of \<open>json\<close>; a Python \<open>dict\<close> is an association
  list in insertion order whose keys are distinct. A Python \<open>float\<close> is carried as the text
  that \<open>repr\<close> prints for it: no float arithmetic happens in the code modelled here.
  Strings are lists of 8-bit characters; the character classes below are the ASCII ones.
\<close>

datatype json =
    JNull
  | JBool bool
  | JInt int
  | JFloat string
  | JStr string
  | JArr "json list"
  | JObj "(string \<times> json) list"

datatype py_error =
    AttributeError
  | KeyError
  | TypeError
  | ValueError
  | ZeroDivisionError
  | IOError
  | DoesNotExist
  | MultipleObjectsReturned
  | IntegrityError
  | DataError
  | EngineError string
  | PDFGenerationError py_error

text \<open>\<open>sub in s\<close> on two Python strings: \<open>sub\<close> occurs in \<open>s\<close> as a contiguous block.\<close>

fun str_in :: "string \<Rightarrow> string \<Rightarrow> bool" where
  "str_in sub [] = (sub = [])"
| "str_in sub (c # cs) = (prefix sub (c # cs) \<or> str_in sub cs)"

text \<open>\<open>s.startswith(p)\<close>.\<close>

definition startswith :: "string \<Rightarrow> string \<Rightarrow> bool" where
  "startswith s p = prefix p s"

text \<open>\<open>str(n)\<close> for a Python \<open>int\<close>: the decimal digits, with a minus sign when negative.\<close>

fun str_nat :: "nat \<Rightarrow> string" where
  "str_nat n =
     (if n < 10 then [char_of (48 + n)]
      else str_nat (n div 10) @ [char_of (48 + n mod 10)])"

declare str_nat.simps [simp del]

definition str_int :: "int \<Rightarrow> string" where
  "str_int i = (if i < 0 then CHR ''-'' # str_nat (nat (- i)) else str_nat (nat i))"

text \<open>\<open>c.isspace()\<close>, \<open>s.strip()\<close> and \<open>s.split(',')[0]\<close> on ASCII text.\<close>

definition isspace :: "char \<Rightarrow> bool" where
  "isspace c = (let n = (of_char c :: nat) in n = 32 \<or> (9 \<le> n \<and> n \<le> 13) \<or> (28 \<le> n \<and> n \<le> 31))"

definition strip :: "string \<Rightarrow> string" where
  "strip s = rev (dropWhile isspace (rev (dropWhile isspace s)))"

definition split_comma_first :: "string \<Rightarrow> string" where
  "split_comma_first s = takeWhile (\<lambda>c. c \<noteq> CHR '','') s"

text \<open>\<open>c.isalnum()\<close> and \<open>s.lower()\<close> on ASCII text.\<close>

definition isalnum :: "char \<Rightarrow> bool" where
  "isalnum c =
     (let n = (of_char c :: nat)
      in (48 \<le> n \<and> n \<le> 57) \<or> (65 \<le> n \<and> n \<le> 90) \<or> (97 \<le> n \<and> n \<le> 122))"

definition lower_char :: "char \<Rightarrow> char" where
  "lower_char c =
     (let n = (of_char c :: nat) in if 65 \<le> n \<and> n \<le> 90 then char_of (n + 32) else c)"

definition lower :: "string \<Rightarrow> string" where
  "lower s = map lower_char s"

text \<open>\<open>sep.join(parts)\<close>.\<close>

fun join :: "string \<Rightarrow> string list \<Rightarrow> string" where
  "join sep [] = []"
| "join sep [x] = x"
| "join sep (x # y # ys) = x @ sep @ join sep (y # ys)"

text \<open>
  Truthiness of a value (\<open>if v:\<close>, \<open>not v\<close>): \<open>None\<close>, \<open>False\<close>, zero, the empty string,
  the empty list and the empty dict are falsy. A float is zero when its text is
  \<open>0.0\<close> or \<open>-0.0\<close>.
\<close>

fun truthy :: "json \<Rightarrow> bool" where
  "truthy JNull = False"
| "truthy (JBool b) = b"
| "truthy (JInt i) = (i \<noteq> 0)"
| "truthy (JFloat s) = (s \<noteq> ''0.0'' \<and> s \<noteq> ''-0.0'')"
| "truthy (JStr s) = (s \<noteq> [])"
| "truthy (JArr xs) = (xs \<noteq> [])"
| "truthy (JObj kvs) = (kvs \<noteq> [])"

text \<open>
  \<open>d.get(k, default)\<close>: only a dict has the method, any other value raises
  \<open>AttributeError\<close>. \<open>d[k] = v\<close> on a dict keeps the position of a key already there
  and appends a new one.
\<close>

definition py_get :: "json \<Rightarrow> string \<Rightarrow> json \<Rightarrow> py_error + json" where
  "py_get d k dflt =
     (case d of
        JObj kvs \<Rightarrow> Inr (case map_of kvs k of Some v \<Rightarrow> v | None \<Rightarrow> dflt)
      | _ \<Rightarrow> Inl AttributeError)"

fun dict_set :: "(string \<times> json) list \<Rightarrow> string \<Rightarrow> json \<Rightarrow> (string \<times> json) list" where
  "dict_set [] k v = [(k, v)]"
| "dict_set ((k', v') # kvs) k v =
     (if k' = k then (k, v) # kvs else (k', v') # dict_set kvs k v)"

text \<open>\<open>d.update(other)\<close> for a dict \<open>other\<close>: its items are set in order.\<close>

definition dict_update :: "(string \<times> json) list \<Rightarrow> (string \<times> json) list \<Rightarrow> (string \<times> json) list" where
  "dict_update d other = foldl (\<lambda>acc (k, v). dict_set acc k v) d other"

text \<open>
  \<open>repr(s)\<close> of an ASCII string: single quotes, or double quotes when the text has a
  single quote and no double quote; the quote character and the backslash are escaped,
  tab, newline and carriage return are written \<open>\t\<close>, \<open>\n\<close>, \<open>\r\<close>, and any other
  control character as \<open>\xhh\<close>.
\<close>

definition hex_digit :: "nat \<Rightarrow> char" where
  "hex_digit n = (if n < 10 then char_of (48 + n) else char_of (87 + n))"

definition repr_char :: "char \<Rightarrow> char \<Rightarrow> string" where
  "repr_char q c =
     (let n = (of_char c :: nat)
      in if c = q \<or> c = CHR 0x5C then [CHR 0x5C, c]
         else if n = 9 then [CHR 0x5C, CHR ''t'']
         else if n = 10 then [CHR 0x5C, CHR ''n'']
         else if n = 13 then [CHR 0x5C, CHR ''r'']
         else if n < 32 \<or> n = 127 then [CHR 0x5C, CHR ''x'', hex_digit (n div 16), hex_digit (n mod 16)]
         else [c])"

definition repr_str :: "string \<Rightarrow> string" where
  "repr_str s =
     (let q = (if CHR 0x27 \<in> set s \<and> CHR 0x22 \<notin> set s then CHR 0x22 else CHR 0x27)
      in q # concat (map (repr_char q) s) @ [q])"

text \<open>
  \<open>repr(v)\<close> and \<open>str(v)\<close> of a value; an f-string field \<open>{v}\<close> prints \<open>str(v)\<close>.
\<close>

fun py_repr :: "json \<Rightarrow> string" where
  "py_repr JNull = ''None''"
| "py_repr (JBool b) = (if b then ''True'' else ''False'')"
| "py_repr (JInt i) = str_int i"
| "py_repr (JFloat s) = s"
| "py_repr (JStr s) = repr_str s"
| "py_repr (JArr xs) = ''['' @ join '', '' (map py_repr xs) @ '']''"
| "py_repr (JObj kvs) =
     ''{'' @ join '', '' (map (\<lambda>kv. repr_str (fst kv) @ '': '' @ py_repr (snd kv)) kvs) @ ''}''"

definition py_str :: "json \<Rightarrow> string" where
  "py_str v = (case v of JStr s \<Rightarrow> s | _ \<Rightarrow> py_repr v)"

text \<open>
  A time-limited cache (\<open>django.core.cache\<close>): each entry carries the instant it
  expires. \<open>cache_lookup\<close> is \<open>cache.get(key)\<close>, with \<open>None\<close> for an absent or expired
  entry; \<open>cache_get\<close> is \<open>cache.get(key, default)\<close>; \<open>cache_set\<close> is
  \<open>cache.set(key, value, timeout)\<close>.
\<close>

type_synonym 'v cache = "string \<Rightarrow> ('v \<times> int) option"

definition cache_lookup :: "'v cache \<Rightarrow> int \<Rightarrow> string \<Rightarrow> 'v option" where
  "cache_lookup c now k =
     (case c k of None \<Rightarrow> None | Some (v, expiry) \<Rightarrow> if expiry \<le> now then None else Some v)"

definition cache_get :: "'v cache \<Rightarrow> int \<Rightarrow> string \<Rightarrow> 'v \<Rightarrow> 'v" where
  "cache_get c now k dflt = (case cache_lookup c now k of None \<Rightarrow> dflt | Some v \<Rightarrow> v)"

definition cache_set :: "'v cache \<Rightarrow> int \<Rightarrow> string \<Rightarrow> 'v \<Rightarrow> int \<Rightarrow> 'v cache" where
  "cache_set c now k v timeout = c(k \<mapsto> (v, now + timeout))"

text \<open>Requests and JSON responses.\<close>

datatype req_user = AnonymousUser | User (pk: int) (email: string)

record request =
  request_path :: string
  request_user :: "req_user option"
  HTTP_X_FORWARDED_FOR :: "string option"
  REMOTE_ADDR :: "string option"
  request_data :: json

record response =
  status :: nat
  body :: json

section \<open>Rate limiting middleware (apps/core/middleware/rate_limiting.py)\<close>

record rate_limit =
  limit_requests :: int
  limit_window :: int

text \<open>The table \<open>__init__\<close> falls back to when the settings define none.\<close>

definition default_rate_limits :: "(string \<times> rate_limit) list" where
  "default_rate_limits =
    [(''default'', \<lparr>limit_requests = 100, limit_window = 3600\<rparr>),
     (''pdf_generation'', \<lparr>limit_requests = 10, limit_window = 900\<rparr>),
     (''preview_generation'', \<lparr>limit_requests = 100, limit_window = 300\<rparr>),
     (''api_general'', \<lparr>limit_requests = 1000, limit_window = 3600\<rparr>)]"

text \<open>\<open>ENHANCED_RATE_LIMITS\<close> of cvflo/settings.py, which \<open>__init__\<close> reads first.\<close>

definition ENHANCED_RATE_LIMITS :: "(string \<times> rate_limit) list" where
  "ENHANCED_RATE_LIMITS =
    [(''default'', \<lparr>limit_requests = 100, limit_window = 3600\<rparr>),
     (''pdf_generation'', \<lparr>limit_requests = 10, limit_window = 900\<rparr>),
     (''preview_generation'', \<lparr>limit_requests = 100, limit_window = 300\<rparr>),
     (''api_general'', \<lparr>limit_requests = 1000, limit_window = 3600\<rparr>),
     (''admin_api'', \<lparr>limit_requests = 500, limit_window = 3600\<rparr>)]"

definition should_skip_rate_limiting :: "string \<Rightarrow> bool" where
  "should_skip_rate_limiting path =
     list_ex (\<lambda>p. startswith path p) [''/admin/'', ''/health/'', ''/static/'', ''/media/'']"

definition get_rate_limit_category :: "string \<Rightarrow> string" where
  "get_rate_limit_category path =
     (if str_in ''/api/pdf/generate-pdf'' path \<or> str_in ''/api/pdf/generate-pdf-from-html'' path
      then ''pdf_generation''
      else if str_in ''/api/pdf/generate-preview'' path then ''preview_generation''
      else if startswith path ''/api/'' then ''api_general''
      else ''default'')"

text \<open>
  \<open>self.rate_limits.get(limit_category, self.rate_limits['default'])\<close>: the default
  argument is evaluated first, so a table without \<open>'default'\<close> raises \<open>KeyError\<close>.
\<close>

definition lookup_rate_limit :: "(string \<times> rate_limit) list \<Rightarrow> string \<Rightarrow> py_error + rate_limit" where
  "lookup_rate_limit rate_limits limit_category =
     (case map_of rate_limits ''default'' of
        None \<Rightarrow> Inl KeyError
      | Some d \<Rightarrow> Inr (case map_of rate_limits limit_category of Some r \<Rightarrow> r | None \<Rightarrow> d))"

text \<open>
  \<open>_get_client_identifier\<close>: the authenticated user's id, else the first address of
  \<open>X-Forwarded-For\<close>, else \<open>REMOTE_ADDR\<close>, else \<open>unknown\<close>. A request without a
  \<open>user\<close> attribute is \<open>user = None\<close>.
\<close>

definition get_client_identifier :: "request \<Rightarrow> string" where
  "get_client_identifier request =
     (case request_user request of
        Some (User uid _) \<Rightarrow> ''user:'' @ str_int uid
      | _ \<Rightarrow>
          (let ip =
             (case HTTP_X_FORWARDED_FOR request of
                Some x \<Rightarrow>
                  if x \<noteq> [] then strip (split_comma_first x)
                  else (case REMOTE_ADDR request of Some a \<Rightarrow> a | None \<Rightarrow> ''unknown'')
              | None \<Rightarrow> (case REMOTE_ADDR request of Some a \<Rightarrow> a | None \<Rightarrow> ''unknown''))
           in ''ip:'' @ ip))"

definition rate_limit_key :: "string \<Rightarrow> string \<Rightarrow> int \<Rightarrow> string" where
  "rate_limit_key category client_id current_window =
     ''rate_limit:'' @ category @ '':'' @ client_id @ '':'' @ str_int current_window"

text \<open>
  \<open>_check_rate_limit\<close> at the instant \<open>now = int(time.time())\<close>; the cache is read and
  written at that instant. A window length of zero makes the floor division raise.
  The result is \<open>(is_allowed, remaining, reset_time)\<close> and the cache afterwards.
\<close>

definition check_rate_limit ::
  "int cache \<Rightarrow> int \<Rightarrow> request \<Rightarrow> string \<Rightarrow> rate_limit \<Rightarrow> py_error + ((bool \<times> int \<times> int) \<times> int cache)" where
  "check_rate_limit cache now request category rl =
     (let client_id = get_client_identifier request;
          w = limit_window rl;
          limit = limit_requests rl
      in if w = 0 then Inl ZeroDivisionError
         else
           (let current_window = now div w;
                cache_key = rate_limit_key category client_id current_window;
                current_count = cache_get cache now cache_key 0
            in if current_count \<ge> limit
               then Inr ((False, 0, (current_window + 1) * w), cache)
               else Inr ((True, limit - (current_count + 1), (current_window + 1) * w),
                         cache_set cache now cache_key (current_count + 1) w)))"

text \<open>
  \<open>process_request\<close>. \<open>now\<close> is the clock read inside \<open>_check_rate_limit\<close>,
  \<open>now_resp\<close> the later read that fills \<open>retry_after\<close>. The result is the response
  (\<open>None\<close>: the request goes on to the view), the \<open>rate_limit_info\<close> attached to the
  request, and the cache. Any exception lets the request through.
\<close>

definition process_request ::
  "(string \<times> rate_limit) list \<Rightarrow> int cache \<Rightarrow> int \<Rightarrow> int \<Rightarrow> request
     \<Rightarrow> response option \<times> json option \<times> int cache" where
  "process_request rate_limits cache now now_resp request =
     (if should_skip_rate_limiting (request_path request) then (None, None, cache)
      else
        (let limit_category = get_rate_limit_category (request_path request)
         in case lookup_rate_limit rate_limits limit_category of
              Inl e \<Rightarrow> (None, None, cache)
            | Inr rl \<Rightarrow>
                (case check_rate_limit cache now request limit_category rl of
                   Inl e \<Rightarrow> (None, None, cache)
                 | Inr ((is_allowed, remaining, reset_time), cache') \<Rightarrow>
                     if \<not> is_allowed
                     then (Some \<lparr>status = 429,
                                 body = JObj [(''error'', JStr ''Rate limit exceeded''),
                                              (''limit'', JInt (limit_requests rl)),
                                              (''window'', JInt (limit_window rl)),
                                              (''remaining'', JInt 0),
                                              (''reset_time'', JInt reset_time),
                                              (''retry_after'', JInt (reset_time - now_resp))]\<rparr>,
                           None, cache')
                     else (None,
                           Some (JObj [(''limit'', JInt (limit_requests rl)),
                                       (''remaining'', JInt remaining),
                                       (''reset_time'', JInt reset_time),
                                       (''window'', JInt (limit_window rl))]),
                           cache'))))"

text \<open>
  A run of the middleware over successive requests, each with its two clock reads:
  the responses in order and the cache at the end.
\<close>

fun process_requests ::
  "(string \<times> rate_limit) list \<Rightarrow> int cache \<Rightarrow> (request \<times> int \<times> int) list
     \<Rightarrow> response option list \<times> int cache" where
  "process_requests rate_limits cache [] = ([], cache)"
| "process_requests rate_limits cache ((request, now, now_resp) # rest) =
     (case process_request rate_limits cache now now_resp request of
        (resp, info, cache') \<Rightarrow>
          (case process_requests rate_limits cache' rest of
             (resps, cache'') \<Rightarrow> (resp # resps, cache'')))"

section \<open>Static assets (apps/core/static_views.py)\<close>

type_synonym bytes = "char list"

text \<open>
  The file system as the view reads it: a path is absent, a directory, or a regular file
  whose read gives its contents or raises \<open>IOError\<close> (\<open>None\<close>).
\<close>

datatype fs_node = Dir | File "bytes option"

fun os_path_join2 :: "string \<Rightarrow> string \<Rightarrow> string" where
  "os_path_join2 a b =
     (if startswith b ''/'' then b
      else if a = [] \<or> last a = CHR ''/'' then a @ b
      else a @ ''/'' @ b)"

definition os_path_join :: "string \<Rightarrow> string list \<Rightarrow> string" where
  "os_path_join a bs = foldl os_path_join2 a bs"

text \<open>
  \<open>os.path.splitext(p)[1]\<close>: the text from the last dot of the last path component on,
  unless only dots come before it in that component.
\<close>

definition splitext_ext :: "string \<Rightarrow> string" where
  "splitext_ext p =
     (let b = rev (takeWhile (\<lambda>c. c \<noteq> CHR ''/'') (rev p));
          ext_rev = takeWhile (\<lambda>c. c \<noteq> CHR ''.'') (rev b);
          stem = take (length b - length ext_rev - 1) b
      in if CHR ''.'' \<in> set b \<and> list_ex (\<lambda>c. c \<noteq> CHR ''.'') stem
         then CHR ''.'' # rev ext_rev
         else [])"

definition mime_types :: "(string \<times> string) list" where
  "mime_types =
    [(''.js'', ''application/javascript''),
     (''.mjs'', ''application/javascript''),
     (''.css'', ''text/css''),
     (''.json'', ''application/json''),
     (''.png'', ''image/png''),
     (''.jpg'', ''image/jpeg''),
     (''.jpeg'', ''image/jpeg''),
     (''.gif'', ''image/gif''),
     (''.svg'', ''image/svg+xml''),
     (''.ico'', ''image/x-icon''),
     (''.woff'', ''font/woff''),
     (''.woff2'', ''font/woff2''),
     (''.ttf'', ''font/ttf''),
     (''.eot'', ''application/vnd.ms-fontobject''),
     (''.map'', ''application/json'')]"

record asset_response =
  content :: bytes
  content_type :: string
  headers :: "(string \<times> string) list"

text \<open>
  \<open>StaticAssetView.get\<close>. \<open>Inl msg\<close> is \<open>raise Http404(msg)\<close>. The settings
  \<open>CLIENT_BUILD_DIR\<close> and \<open>DEBUG\<close>, the file system and \<open>mimetypes.guess_type\<close>
  are given from outside.
\<close>

definition static_asset_get ::
  "string \<Rightarrow> bool \<Rightarrow> (string \<Rightarrow> fs_node option) \<Rightarrow> (string \<Rightarrow> string option) \<Rightarrow> string
     \<Rightarrow> string + asset_response" where
  "static_asset_get CLIENT_BUILD_DIR DEBUG fs guess_type path =
     (if str_in ''..'' path \<or> startswith path ''/'' then Inl ''Invalid path''
      else
        (let file_path = os_path_join CLIENT_BUILD_DIR [''assets'', path]
         in case fs file_path of
              None \<Rightarrow> Inl ''File not found''
            | Some Dir \<Rightarrow> Inl ''File not found''
            | Some (File rd) \<Rightarrow>
                (let mime_type =
                   (case guess_type file_path of
                      Some m \<Rightarrow> m
                    | None \<Rightarrow>
                        (case map_of mime_types (lower (splitext_ext path)) of
                           Some m \<Rightarrow> m
                         | None \<Rightarrow> ''application/octet-stream''))
                 in case rd of
                      None \<Rightarrow> Inl ''Could not read file''
                    | Some bs \<Rightarrow>
                        Inr \<lparr>content = bs, content_type = mime_type,
                             headers =
                               (if \<not> DEBUG
                                then [(''Cache-Control'', ''public, max-age=31536000''),
                                      (''Expires'', ''Thu, 31 Dec 2037 23:55:55 GMT'')]
                                else [])\<rparr>)))"

section \<open>Template presentation helpers (apps/core/templatetags/cv_filters.py)\<close>

text \<open>
  A value handed to a template filter is JSON data of the CV or a date object
  (\<open>datetime.date\<close>, \<open>datetime.datetime\<close>) of an abstract type \<open>'d\<close>. A date object is
  always truthy. Its methods \<open>strftime\<close> (which may raise) and \<open>__str__\<close> come from the
  library and are given from outside; a JSON value has no \<open>strftime\<close> attribute.
\<close>

datatype 'd py_value = PyJson json | PyDate 'd

definition value_truthy :: "'d py_value \<Rightarrow> bool" where
  "value_truthy v = (case v of PyJson j \<Rightarrow> truthy j | PyDate d \<Rightarrow> True)"

definition value_str :: "('d \<Rightarrow> string) \<Rightarrow> 'd py_value \<Rightarrow> string" where
  "value_str str_date v = (case v of PyJson j \<Rightarrow> py_str j | PyDate d \<Rightarrow> str_date d)"

definition value_strftime ::
  "('d \<Rightarrow> string \<Rightarrow> py_error + string) \<Rightarrow> 'd py_value \<Rightarrow> string \<Rightarrow> py_error + string" where
  "value_strftime strftime v fmt =
     (case v of PyJson j \<Rightarrow> Inl AttributeError | PyDate d \<Rightarrow> strftime d fmt)"

definition format_date ::
  "('d \<Rightarrow> string \<Rightarrow> py_error + string) \<Rightarrow> ('d \<Rightarrow> string) \<Rightarrow> 'd py_value \<Rightarrow> string \<Rightarrow> string" where
  "format_date strftime str_date date_value format_string =
     (if \<not> value_truthy date_value then []
      else
        (case (if format_string = ''M Y'' then value_strftime strftime date_value ''%b %Y''
               else if format_string = ''Y'' then value_strftime strftime date_value ''%Y''
               else if format_string = ''M d, Y'' then value_strftime strftime date_value ''%b %d, %Y''
               else value_strftime strftime date_value format_string)
         of Inr text \<Rightarrow> text
          | Inl e \<Rightarrow> value_str str_date date_value))"

section \<open>PDF services (apps/pdf_generation/services.py)\<close>



text \<open>
  \<open>get_suggested_filename\<close>: the body of the \<open>try\<close>, and the function with its
  \<open>except\<close> branch.
\<close>

definition suggested_filename_try :: "json \<Rightarrow> py_error + string" where
  "suggested_filename_try cv_data =
     (case py_get cv_data ''personal_info'' (JObj []) of
        Inl e \<Rightarrow> Inl e
      | Inr personal_info \<Rightarrow>
          (case py_get personal_info ''first_name'' (JStr ''CV'') of
             Inl e \<Rightarrow> Inl e
           | Inr first_name \<Rightarrow>
               (case py_get personal_info ''last_name'' (JStr ''Resume'') of
                  Inl e \<Rightarrow> Inl e
                | Inr last_name \<Rightarrow>
                    (let filename = py_str first_name @ ''_'' @ py_str last_name @ ''_Resume.pdf''
                     in Inr (filter (\<lambda>c. isalnum c \<or> c \<in> set ''._-'') filename)))))"

definition get_suggested_filename :: "json \<Rightarrow> string" where
  "get_suggested_filename cv_data =
     (case suggested_filename_try cv_data of Inr filename \<Rightarrow> filename | Inl e \<Rightarrow> ''CV_Resume.pdf'')"




section \<open>Enhanced PDF services (apps/pdf_generation/enhanced_services.py)\<close>







section \<open>CV data API (apps/cv_builder/models.py, views.py)\<close>

text \<open>
  A row of the table \<open>cv_data\<close> (\<open>CVProfile\<close>). Instants are integers; the primary key
  is the text of a UUID. The table is the list of its rows.
\<close>

record cv_profile =
  profile_id :: string
  profile_user_id :: int
  profile_cv_content :: json
  profile_template_name :: string
  profile_created_at :: int
  profile_updated_at :: int

text \<open>\<open>CVProfile.objects.get(user_id=uid)\<close>.\<close>

definition objects_get :: "cv_profile list \<Rightarrow> int \<Rightarrow> py_error + cv_profile" where
  "objects_get db uid =
     (case filter (\<lambda>r. profile_user_id r = uid) db of
        [] \<Rightarrow> Inl DoesNotExist
      | [r] \<Rightarrow> Inr r
      | _ \<Rightarrow> Inl MultipleObjectsReturned)"

text \<open>
  What the column \<open>template_name\<close> (\<open>CharField(max_length=50)\<close>, not null) stores for a
  value: a string as it is, any other value by its \<open>str\<close>, and \<open>None\<close> violates the
  not-null constraint. The length limit is enforced by some database backends only
  (\<open>strict\<close>).
\<close>

definition template_name_column :: "bool \<Rightarrow> json \<Rightarrow> py_error + string" where
  "template_name_column strict v =
     (case v of
        JNull \<Rightarrow> Inl IntegrityError
      | _ \<Rightarrow> if strict \<and> length (py_str v) > 50 then Inl DataError else Inr (py_str v))"

text \<open>
  \<open>CVProfile.objects.get_or_create(user_id=uid, defaults={...})\<close>: the row, whether it
  was created, and the table. A created row gets the fresh primary key \<open>new_id\<close>.
\<close>

definition get_or_create ::
  "bool \<Rightarrow> cv_profile list \<Rightarrow> string \<Rightarrow> int \<Rightarrow> int \<Rightarrow> json \<Rightarrow> json
     \<Rightarrow> py_error + (cv_profile \<times> bool \<times> cv_profile list)" where
  "get_or_create strict db new_id now uid selected_template cv_content =
     (case objects_get db uid of
        Inr p \<Rightarrow> Inr (p, False, db)
      | Inl e \<Rightarrow>
          if e \<noteq> DoesNotExist then Inl e
          else
            (case template_name_column strict selected_template of
               Inl e' \<Rightarrow> Inl e'
             | Inr tn \<Rightarrow>
                 if new_id \<in> set (map profile_id db) then Inl IntegrityError
                 else
                   (let p = \<lparr>profile_id = new_id, profile_user_id = uid,
                              profile_cv_content = cv_content, profile_template_name = tn,
                              profile_created_at = now, profile_updated_at = now\<rparr>
                    in Inr (p, True, db @ [p]))))"

text \<open>
  \<open>cv_profile.save()\<close> after the attributes \<open>cv_content\<close> and \<open>template_name\<close> were
  assigned: the row with this primary key is rewritten, \<open>updated_at\<close> is set to now; a
  row that is not in the table is inserted.
\<close>

definition save ::
  "bool \<Rightarrow> cv_profile list \<Rightarrow> int \<Rightarrow> cv_profile \<Rightarrow> json \<Rightarrow> json \<Rightarrow> py_error + (cv_profile \<times> cv_profile list)" where
  "save strict db now p cv_content selected_template =
     (case template_name_column strict selected_template of
        Inl e \<Rightarrow> Inl e
      | Inr tn \<Rightarrow>
          (let p' = p\<lparr>profile_cv_content := cv_content, profile_template_name := tn,
                       profile_updated_at := now\<rparr>
           in if profile_id p \<in> set (map profile_id db)
              then Inr (p', map (\<lambda>r. if profile_id r = profile_id p then p' else r) db)
              else Inr (p', db @ [p'])))"

text \<open>
  \<open>request.user.id if request.user.is_authenticated else 1\<close>, and whether
  \<open>request.user.email\<close> can be read: \<open>AnonymousUser\<close> has no such attribute.
\<close>

definition effective_user_id :: "request \<Rightarrow> int" where
  "effective_user_id request =
     (case request_user request of Some (User uid mail) \<Rightarrow> uid | _ \<Rightarrow> 1)"

definition has_email :: "request \<Rightarrow> bool" where
  "has_email request = (case request_user request of Some (User uid mail) \<Rightarrow> True | _ \<Rightarrow> False)"

definition error_response :: "nat \<Rightarrow> string \<Rightarrow> response" where
  "error_response code msg = \<lparr>status = code, body = JObj [(''error'', JStr msg)]\<rparr>"

definition saved_response :: "string \<Rightarrow> cv_profile \<Rightarrow> response" where
  "saved_response msg p =
     \<lparr>status = 200,
      body = JObj [(''success'', JBool True),
                   (''message'', JStr msg),
                   (''data'', JObj [(''id'', JStr (profile_id p)),
                                    (''last_updated'', JInt (profile_updated_at p))])]\<rparr>"

text \<open>\<open>CVDataView.get\<close>.\<close>

definition cv_data_get :: "cv_profile list \<Rightarrow> request \<Rightarrow> response" where
  "cv_data_get db request =
     (let user_id = effective_user_id request
      in case objects_get db user_id of
           Inr cv_profile \<Rightarrow>
             (case py_get (profile_cv_content cv_profile) ''visibility'' (JObj []) of
                Inl e \<Rightarrow> error_response 500 ''Failed to retrieve CV data''
              | Inr visibility \<Rightarrow>
                  \<lparr>status = 200,
                   body = JObj [(''cv_data'', profile_cv_content cv_profile),
                                (''visibility'', visibility),
                                (''selected_template'', JStr (profile_template_name cv_profile)),
                                (''last_updated'', JInt (profile_updated_at cv_profile))]\<rparr>)
         | Inl e \<Rightarrow>
             if e = DoesNotExist
             then \<lparr>status = 200,
                   body = JObj [(''cv_data'', JNull),
                                (''visibility'', JNull),
                                (''selected_template'', JStr ''classic-0''),
                                (''message'', JStr ''No CV data found'')]\<rparr>
             else error_response 500 ''Failed to retrieve CV data'')"

text \<open>
  \<open>CVDataView.post\<close>: the response and the table afterwards. The last log line reads
  \<open>request.user.email\<close> after the row is written; for an anonymous request it raises and
  the answer is the 500 of the \<open>except\<close> branch.
\<close>

definition cv_data_post ::
  "bool \<Rightarrow> cv_profile list \<Rightarrow> string \<Rightarrow> int \<Rightarrow> request \<Rightarrow> response \<times> cv_profile list" where
  "cv_data_post strict db new_id now request =
     (let user_id = effective_user_id request;
          failed = error_response 500 ''Failed to save CV data''
      in case py_get (request_data request) ''cv_data'' JNull of
           Inl e \<Rightarrow> (failed, db)
         | Inr cv_data \<Rightarrow>
        (case py_get (request_data request) ''visibility'' (JObj []) of
           Inl e \<Rightarrow> (failed, db)
         | Inr visibility \<Rightarrow>
        (case py_get (request_data request) ''selected_template'' (JStr ''classic-0'') of
           Inl e \<Rightarrow> (failed, db)
         | Inr selected_template \<Rightarrow>
             if \<not> truthy cv_data then (error_response 400 ''CV data is required'', db)
             else
               (let cv_content =
                      JObj (dict_set (case cv_data of JObj kvs \<Rightarrow> kvs | _ \<Rightarrow> [])
                              ''visibility'' visibility)
                in case get_or_create strict db new_id now user_id selected_template cv_content of
                     Inl e \<Rightarrow> (failed, db)
                   | Inr (cv_profile, created, db1) \<Rightarrow>
                       (case (if \<not> created
                              then save strict db1 now cv_profile cv_content selected_template
                              else Inr (cv_profile, db1)) of
                          Inl e \<Rightarrow> (failed, db1)
                        | Inr (cv_profile', db2) \<Rightarrow>
                            if has_email request
                            then (saved_response ''CV data saved successfully'' cv_profile', db2)
                            else (failed, db2))))))"

text \<open>
  \<open>cv_profile.cv_content.update(cv_data)\<close> for a truthy \<open>cv_data\<close>. A stored content
  that is not a dict has no \<open>update\<close>; a string argument is read as a sequence of
  one-character items and a number is not iterable, so both raise. A non-empty list
  argument is read as a list of key/value pairs under Python's own key hashing: that
  case is outside this model (\<open>None\<close>).
\<close>

definition content_update :: "json \<Rightarrow> json \<Rightarrow> (py_error + json) option" where
  "content_update cv_content cv_data =
     (case cv_content of
        JObj kvs \<Rightarrow>
          (case cv_data of
             JObj other \<Rightarrow> Some (Inr (JObj (dict_update kvs other)))
           | JStr s \<Rightarrow> Some (Inl ValueError)
           | JArr xs \<Rightarrow> None
           | _ \<Rightarrow> Some (Inl TypeError))
      | _ \<Rightarrow> Some (Inl AttributeError))"

text \<open>\<open>cv_profile.cv_content['visibility'] = visibility\<close>.\<close>

definition content_set_visibility :: "json \<Rightarrow> json \<Rightarrow> py_error + json" where
  "content_set_visibility cv_content visibility =
     (case cv_content of
        JObj kvs \<Rightarrow> Inr (JObj (dict_set kvs ''visibility'' visibility))
      | _ \<Rightarrow> Inl TypeError)"

text \<open>
  \<open>CVDataView.put\<close>: the response and the table afterwards; \<open>None\<close> only in the case
  left out by \<open>content_update\<close>.
\<close>

definition cv_data_put ::
  "bool \<Rightarrow> cv_profile list \<Rightarrow> int \<Rightarrow> request \<Rightarrow> (response \<times> cv_profile list) option" where
  "cv_data_put strict db now request =
     (let user_id = effective_user_id request;
          failed = error_response 500 ''Failed to update CV data''
      in case objects_get db user_id of
           Inl e \<Rightarrow>
             if e = DoesNotExist
             then Some (error_response 404 ''CV data not found. Use POST to create new CV data.'', db)
             else Some (failed, db)
         | Inr cv_profile \<Rightarrow>
        (case py_get (request_data request) ''cv_data'' JNull of
           Inl e \<Rightarrow> Some (failed, db)
         | Inr cv_data \<Rightarrow>
        (case py_get (request_data request) ''visibility'' JNull of
           Inl e \<Rightarrow> Some (failed, db)
         | Inr visibility \<Rightarrow>
        (case py_get (request_data request) ''selected_template'' JNull of
           Inl e \<Rightarrow> Some (failed, db)
         | Inr selected_template \<Rightarrow>
        (case (if truthy cv_data then content_update (profile_cv_content cv_profile) cv_data
               else Some (Inr (profile_cv_content cv_profile))) of
           None \<Rightarrow> None
         | Some (Inl e) \<Rightarrow> Some (failed, db)
         | Some (Inr content1) \<Rightarrow>
        (case (if truthy visibility then content_set_visibility content1 visibility
               else Inr content1) of
           Inl e \<Rightarrow> Some (failed, db)
         | Inr content2 \<Rightarrow>
        (case save strict db now cv_profile content2
                (if truthy selected_template then selected_template
                 else JStr (profile_template_name cv_profile)) of
           Inl e \<Rightarrow> Some (failed, db)
         | Inr (cv_profile', db') \<Rightarrow>
             if has_email request
             then Some (saved_response ''CV data updated successfully'' cv_profile', db')
             else Some (failed, db'))))))))"

text \<open>\<open>CVDataView.delete\<close>.\<close>

definition cv_data_delete :: "cv_profile list \<Rightarrow> request \<Rightarrow> response \<times> cv_profile list" where
  "cv_data_delete db request =
     (let user_id = effective_user_id request
      in case objects_get db user_id of
           Inl e \<Rightarrow>
             if e = DoesNotExist then (error_response 404 ''CV data not found'', db)
             else (error_response 500 ''Failed to delete CV data'', db)
         | Inr cv_profile \<Rightarrow>
             (let db' = filter (\<lambda>r. profile_id r \<noteq> profile_id cv_profile) db
              in if has_email request
                 then (\<lparr>status = 200,
                        body = JObj [(''success'', JBool True),
                                     (''message'', JStr ''CV data deleted successfully'')]\<rparr>, db')
                 else (error_response 500 ''Failed to delete CV data'', db')))"

section \<open>Cached and batch generation (apps/pdf_generation/enhanced_services.py)\<close>

text \<open>
  \<open>json.dumps(v, sort_keys=True)\<close> with the default separators and ASCII escaping.
  A string is quoted; the quote, the backslash and the control characters are escaped.
  The items of a dict are written in the order of their keys.
\<close>

definition json_escape_char :: "char \<Rightarrow> string" where
  "json_escape_char c =
     (let n = (of_char c :: nat)
      in if n = 34 then [CHR 0x5C, CHR 0x22]
         else if n = 92 then [CHR 0x5C, CHR 0x5C]
         else if n = 10 then [CHR 0x5C, CHR ''n'']
         else if n = 13 then [CHR 0x5C, CHR ''r'']
         else if n = 9 then [CHR 0x5C, CHR ''t'']
         else if n = 8 then [CHR 0x5C, CHR ''b'']
         else if n = 12 then [CHR 0x5C, CHR ''f'']
         else if n < 32 \<or> 127 \<le> n
           then [CHR 0x5C, CHR ''u'', CHR ''0'', CHR ''0'', hex_digit (n div 16), hex_digit (n mod 16)]
         else [c])"

definition encode_basestring_ascii :: "string \<Rightarrow> string" where
  "encode_basestring_ascii s = CHR 0x22 # concat (map json_escape_char s) @ [CHR 0x22]"

fun dumps :: "json \<Rightarrow> string" where
  "dumps JNull = ''null''"
| "dumps (JBool b) = (if b then ''true'' else ''false'')"
| "dumps (JInt i) = str_int i"
| "dumps (JFloat s) =
     (if s = ''nan'' then ''NaN'' else if s = ''inf'' then ''Infinity''
      else if s = ''-inf'' then ''-Infinity'' else s)"
| "dumps (JStr s) = encode_basestring_ascii s"
| "dumps (JArr xs) = ''['' @ join '', '' (map dumps xs) @ '']''"
| "dumps (JObj kvs) =
     ''{'' @ join '', ''
              (map (\<lambda>item. encode_basestring_ascii (fst item) @ '': '' @ snd item)
                 (sort_key fst (map (\<lambda>kv. (fst kv, dumps (snd kv))) kvs)))
       @ ''}''"

text \<open>
  Two documents that are equal as maps: the same value up to the order in which the
  keys of their dicts were inserted. Scalars are equal when they are the same value,
  lists when their elements are pairwise equal in this sense, dicts (with distinct keys)
  when they have the same keys and equal values under each key.
\<close>

fun same_document :: "json \<Rightarrow> json \<Rightarrow> bool" where
  "same_document (JArr xs) b =
     (case b of JArr ys \<Rightarrow> list_all2 same_document xs ys | _ \<Rightarrow> False)"
| "same_document (JObj kvs) b =
     (case b of
        JObj kvs' \<Rightarrow>
          distinct (map fst kvs) \<and> distinct (map fst kvs') \<and>
          set (map fst kvs) = set (map fst kvs') \<and>
          list_all (\<lambda>kv. case map_of kvs' (fst kv) of
                            Some v' \<Rightarrow> same_document (snd kv) v'
                          | None \<Rightarrow> False) kvs
      | _ \<Rightarrow> False)"
| "same_document a b = (a = b)"

text \<open>
  \<open>_generate_cache_key\<close>. The digest \<open>hashlib.sha256(...).hexdigest()\<close> is given from
  outside.
\<close>

definition generate_cache_key :: "(string \<Rightarrow> string) \<Rightarrow> json \<Rightarrow> json \<Rightarrow> string \<Rightarrow> string" where
  "generate_cache_key sha256_hexdigest cv_data visibility template_name =
     (let content_str = dumps (JObj [(''cv_data'', cv_data),
                                     (''visibility'', visibility),
                                     (''template_name'', JStr template_name)])
      in ''pdf_cache:'' @ sha256_hexdigest content_str)"

text \<open>
  \<open>generate_pdf_with_cache\<close>. \<open>generate_pdf_sync\<close> stands for \<open>_generate_pdf_sync\<close>,
  whose result comes from the template engine and the rendering engine. The cache is
  read at \<open>now_get\<close> and, after the generation, written at \<open>now_set\<close>. A cached value is
  used when it is truthy, that is, present and not empty. An exception of the generation
  leaves the cache as it was.
\<close>

definition generate_pdf_with_cache ::
  "(string \<Rightarrow> string) \<Rightarrow> (json \<Rightarrow> json \<Rightarrow> string \<Rightarrow> py_error + bytes) \<Rightarrow> int
     \<Rightarrow> bytes cache \<Rightarrow> int \<Rightarrow> int \<Rightarrow> json \<Rightarrow> json \<Rightarrow> string
     \<Rightarrow> (py_error + bytes \<times> bool) \<times> bytes cache" where
  "generate_pdf_with_cache sha256_hexdigest generate_pdf_sync cache_timeout cache now_get now_set
       cv_data visibility template_name =
     (let cache_key = generate_cache_key sha256_hexdigest cv_data visibility template_name;
          generated =
            (case generate_pdf_sync cv_data visibility template_name of
               Inl e \<Rightarrow> (Inl e, cache)
             | Inr pdf_data \<Rightarrow>
                 (Inr (pdf_data, False),
                  cache_set cache now_set cache_key pdf_data cache_timeout))
      in case cache_lookup cache now_get cache_key of
           None \<Rightarrow> generated
         | Some cached_pdf \<Rightarrow>
             if cached_pdf \<noteq> [] then (Inr (cached_pdf, True), cache) else generated)"

text \<open>
  The generation pool: \<open>submit_generation\<close> counts a task as submitted and active, and
  the task's wrapper counts it as no longer active when it ends.
\<close>

record pool =
  pool_size :: int
  generation_count :: int
  active_generations :: int

definition submit_generation :: "pool \<Rightarrow> pool" where
  "submit_generation p =
     p\<lparr>active_generations := active_generations p + 1, generation_count := generation_count p + 1\<rparr>"

definition generation_done :: "pool \<Rightarrow> pool" where
  "generation_done p = p\<lparr>active_generations := active_generations p - 1\<rparr>"

text \<open>\<open>d[k]\<close> on a request of the batch: a missing key and a value that is no dict raise.\<close>

definition py_item :: "json \<Rightarrow> string \<Rightarrow> py_error + json" where
  "py_item d k =
     (case d of
        JObj kvs \<Rightarrow> (case map_of kvs k of Some v \<Rightarrow> Inr v | None \<Rightarrow> Inl KeyError)
      | _ \<Rightarrow> Inl TypeError)"

text \<open>
  The arguments with which one request of the batch is submitted:
  \<open>request['cv_data']\<close>, \<open>request['visibility']\<close>,
  \<open>request.get('template_name', 'classic-0')\<close> and \<open>request.get('user_id')\<close>.
\<close>

definition batch_arguments :: "json \<Rightarrow> py_error + (json \<times> json \<times> json \<times> json)" where
  "batch_arguments request =
     (case py_item request ''cv_data'' of
        Inl e \<Rightarrow> Inl e
      | Inr cv_data \<Rightarrow>
          (case py_item request ''visibility'' of
             Inl e \<Rightarrow> Inl e
           | Inr visibility \<Rightarrow>
               (case py_get request ''template_name'' (JStr ''classic-0'') of
                  Inl e \<Rightarrow> Inl e
                | Inr template_name \<Rightarrow>
                    (case py_get request ''user_id'' JNull of
                       Inl e \<Rightarrow> Inl e
                     | Inr user_id \<Rightarrow> Inr (cv_data, visibility, template_name, user_id)))))"

text \<open>
  The first loop of \<open>generate_pdf_batch\<close>: every request is submitted to the pool in
  order; an exception while reading a request ends the call.
\<close>

fun submit_all ::
  "pool \<Rightarrow> json list \<Rightarrow> py_error + ((json \<times> json \<times> json \<times> json) list \<times> pool)" where
  "submit_all p [] = Inr ([], p)"
| "submit_all p (request # rest) =
     (case batch_arguments request of
        Inl e \<Rightarrow> Inl e
      | Inr args \<Rightarrow>
          (case submit_all (submit_generation p) rest of
             Inl e \<Rightarrow> Inl e
           | Inr (futures, p') \<Rightarrow> Inr (args # futures, p')))"

text \<open>
  The second loop: \<open>as_completed\<close> hands the futures over in the order in which they
  finish, which the scheduler decides. \<open>order\<close> is that order, as the list of the
  positions of the finished futures, each position once. The result of a future is the
  generated PDF, and \<open>None\<close> when the generation raised.
\<close>

definition future_result ::
  "(json \<Rightarrow> json \<Rightarrow> json \<Rightarrow> json \<Rightarrow> py_error + bytes) \<Rightarrow> json \<times> json \<times> json \<times> json \<Rightarrow> bytes option" where
  "future_result generate_pdf_sync args =
     (case args of
        (cv_data, visibility, template_name, user_id) \<Rightarrow>
          (case generate_pdf_sync cv_data visibility template_name user_id of
             Inr pdf \<Rightarrow> Some pdf
           | Inl e \<Rightarrow> None))"

definition generate_pdf_batch ::
  "(json \<Rightarrow> json \<Rightarrow> json \<Rightarrow> json \<Rightarrow> py_error + bytes) \<Rightarrow> pool \<Rightarrow> nat list \<Rightarrow> json list
     \<Rightarrow> py_error + (bytes option list \<times> pool)" where
  "generate_pdf_batch generate_pdf_sync p order requests =
     (case submit_all p requests of
        Inl e \<Rightarrow> Inl e
      | Inr (futures, p') \<Rightarrow>
          Inr (map (\<lambda>i. future_result generate_pdf_sync (futures ! i)) order,
               (generation_done ^^ length futures) p'))"

section \<open>Properties\<close>

subsection \<open>Strings\<close>

lemma str_in_sublist: "str_in sub s = sublist sub s"
  by (induction s) (auto simp: sublist_Cons_right)

lemma str_in_longer: "str_in (a @ b) s \<Longrightarrow> str_in a s"
  unfolding str_in_sublist by (auto simp: sublist_def)

subsection \<open>Rate-limit categories\<close>

lemma category_eq:
  "get_rate_limit_category p =
     (if str_in ''/api/pdf/generate-pdf'' p then ''pdf_generation''
      else if str_in ''/api/pdf/generate-preview'' p then ''preview_generation''
      else if startswith p ''/api/'' then ''api_general''
      else ''default'')"
proof -
  have "str_in (''/api/pdf/generate-pdf'' @ ''-from-html'') p \<Longrightarrow> str_in ''/api/pdf/generate-pdf'' p"
    by (rule str_in_longer)
  then show ?thesis
    by (auto simp: get_rate_limit_category_def)
qed

text \<open>
  C6, as stated, at the path \<open>/api/generate-pdf\<close>: it contains \<open>generate-pdf\<close> and is
  put in the category \<open>api_general\<close>, with 1000 requests per 3600 seconds.
\<close>

theorem category_generate_pdf_counterexample:
  "str_in ''generate-pdf'' ''/api/generate-pdf''
   \<and> get_rate_limit_category ''/api/generate-pdf'' = ''api_general''
   \<and> get_rate_limit_category ''/api/generate-pdf'' \<noteq> ''pdf_generation''
   \<and> lookup_rate_limit ENHANCED_RATE_LIMITS (get_rate_limit_category ''/api/generate-pdf'')
       = Inr \<lparr>limit_requests = 1000, limit_window = 3600\<rparr>"
  by (simp add: get_rate_limit_category_def startswith_def lookup_rate_limit_def
      ENHANCED_RATE_LIMITS_def)

text \<open>
  C6, amended: the category of a request path is decided by the substrings
  \<open>/api/pdf/generate-pdf\<close> and \<open>/api/pdf/generate-preview\<close> and the prefix \<open>/api/\<close>,
  tried in this order. A path containing \<open>/api/pdf/generate-pdf\<close> is in
  \<open>pdf_generation\<close> (10 requests per 900 s); any other path containing
  \<open>/api/pdf/generate-preview\<close> is in \<open>preview_generation\<close> (100 per 300 s); any other
  path starting with \<open>/api/\<close> is in \<open>api_general\<close> (1000 per 3600 s); every remaining
  path is in \<open>default\<close> (100 per 3600 s). The limits are those of the settings table, and
  of the built-in table as well.
\<close>

theorem rate_limit_category_selection:
  fixes p :: string
  defines "c \<equiv> get_rate_limit_category p"
  defines "pdf \<equiv> str_in ''/api/pdf/generate-pdf'' p"
  defines "preview \<equiv> str_in ''/api/pdf/generate-preview'' p"
  shows "(pdf \<longrightarrow> c = ''pdf_generation''
            \<and> lookup_rate_limit ENHANCED_RATE_LIMITS c = Inr \<lparr>limit_requests = 10, limit_window = 900\<rparr>
            \<and> lookup_rate_limit default_rate_limits c = Inr \<lparr>limit_requests = 10, limit_window = 900\<rparr>)
       \<and> (\<not> pdf \<and> preview \<longrightarrow> c = ''preview_generation''
            \<and> lookup_rate_limit ENHANCED_RATE_LIMITS c = Inr \<lparr>limit_requests = 100, limit_window = 300\<rparr>
            \<and> lookup_rate_limit default_rate_limits c = Inr \<lparr>limit_requests = 100, limit_window = 300\<rparr>)
       \<and> (\<not> pdf \<and> \<not> preview \<and> startswith p ''/api/'' \<longrightarrow> c = ''api_general''
            \<and> lookup_rate_limit ENHANCED_RATE_LIMITS c = Inr \<lparr>limit_requests = 1000, limit_window = 3600\<rparr>
            \<and> lookup_rate_limit default_rate_limits c = Inr \<lparr>limit_requests = 1000, limit_window = 3600\<rparr>)
       \<and> (\<not> pdf \<and> \<not> preview \<and> \<not> startswith p ''/api/'' \<longrightarrow> c = ''default''
            \<and> lookup_rate_limit ENHANCED_RATE_LIMITS c = Inr \<lparr>limit_requests = 100, limit_window = 3600\<rparr>
            \<and> lookup_rate_limit default_rate_limits c = Inr \<lparr>limit_requests = 100, limit_window = 3600\<rparr>)"
  unfolding c_def pdf_def preview_def category_eq
  by (simp add: lookup_rate_limit_def ENHANCED_RATE_LIMITS_def default_rate_limits_def)

theorem rate_limit_category_selection_witness:
  "str_in ''/api/pdf/generate-pdf'' ''/api/pdf/generate-pdf/''
   \<and> get_rate_limit_category ''/api/pdf/generate-pdf/'' = ''pdf_generation''
   \<and> lookup_rate_limit ENHANCED_RATE_LIMITS (get_rate_limit_category ''/api/pdf/generate-pdf/'')
       = Inr \<lparr>limit_requests = 10, limit_window = 900\<rparr>"
proof -
  have h: "str_in ''/api/pdf/generate-pdf'' ''/api/pdf/generate-pdf/''"
    by simp
  show ?thesis
    using h rate_limit_category_selection [of "''/api/pdf/generate-pdf/''"] by blast
qed

subsection \<open>Static assets\<close>

lemma static_asset_example:
  "static_asset_get ''/srv/public'' False
     (\<lambda>f. if f = ''/srv/public/assets/js/app.JS'' then Some (File (Some ''alert(1)'')) else None)
     (\<lambda>f. None) ''js/app.JS''
   = Inr \<lparr>content = ''alert(1)'', content_type = ''application/javascript'',
          headers = [(''Cache-Control'', ''public, max-age=31536000''),
                     (''Expires'', ''Thu, 31 Dec 2037 23:55:55 GMT'')]\<rparr>"
  by code_simp

text \<open>
  C8: a requested asset path that contains \<open>..\<close> or starts with \<open>/\<close> is answered with
  not-found (\<open>Http404\<close>, "Invalid path") whatever the file system holds and whatever the
  settings are: the answer does not depend on the file system, which is not read.
\<close>

theorem static_asset_traversal_guard:
  assumes "str_in ''..'' p \<or> startswith p ''/''"
  shows "static_asset_get build_dir debug fs guess_type p = Inl ''Invalid path''"
  using assms by (simp add: static_asset_get_def)

theorem static_asset_traversal_guard_witness:
  "(str_in ''..'' ''../settings.py'' \<or> startswith ''../settings.py'' ''/'')
   \<and> static_asset_get ''/srv/public'' False
        (\<lambda>f. if f = ''/srv/public/assets/../settings.py'' then Some (File (Some ''SECRET'')) else None)
        (\<lambda>f. None) ''../settings.py'' = Inl ''Invalid path''"
proof -
  have h: "str_in ''..'' ''../settings.py'' \<or> startswith ''../settings.py'' ''/''"
    by simp
  show ?thesis
    using h static_asset_traversal_guard [OF h] by simp
qed


subsection \<open>Suggested file name\<close>

lemma suggested_filename_john_doe:
  "get_suggested_filename
     (JObj [(''personal_info'', JObj [(''first_name'', JStr ''John''), (''last_name'', JStr ''Doe'')])])
   = ''John_Doe_Resume.pdf''"
  by (simp add: get_suggested_filename_def suggested_filename_try_def py_get_def py_str_def
      isalnum_def)

lemma suggested_filename_string_names:
  assumes "map_of cv ''personal_info'' = Some (JObj info)"
    and "map_of info ''first_name'' = Some (JStr fname)"
    and "map_of info ''last_name'' = Some (JStr lname)"
  shows "get_suggested_filename (JObj cv) =
           filter (\<lambda>c. isalnum c \<or> c \<in> set ''._-'') (fname @ ''_'' @ lname @ ''_Resume.pdf'')"
  using assms
  by (simp add: get_suggested_filename_def suggested_filename_try_def py_get_def py_str_def)

lemma suggested_filename_characters:
  assumes "suggested_filename_try cv_data = Inr name" and "c \<in> set name"
  shows "isalnum c \<or> c \<in> set ''._-''"
proof -
  define ok where "ok = (\<lambda>c. isalnum c \<or> c \<in> set ''._-'')"
  from assms(1) obtain filename where "name = filter ok filename"
    unfolding suggested_filename_try_def Let_def ok_def [symmetric]
    by (auto split: sum.splits simp del: filter_append filter.simps)
  with assms(2) have "ok c"
    by simp
  then show ?thesis
    by (simp add: ok_def)
qed

text \<open>
  C4, at the empty CV data map: \<open>personal_info\<close> defaults to the empty dict, the first
  name to \<open>CV\<close> and the last name to \<open>Resume\<close>, and the suffix \<open>_Resume.pdf\<close> is added
  to both, so the result is \<open>CV_Resume_Resume.pdf\<close>, not \<open>CV_Resume.pdf\<close>.
\<close>

theorem suggested_filename_empty_cv:
  "get_suggested_filename (JObj []) = ''CV_Resume_Resume.pdf''"
  by (simp add: get_suggested_filename_def suggested_filename_try_def py_get_def py_str_def
      isalnum_def)

subsection \<open>Date formatting\<close>

text \<open>
  C9: \<open>format_date\<close> gives the empty string for every falsy input. For a date object it
  calls \<open>strftime\<close> with \<open>%b %Y\<close> (abbreviated month name and year with century) for the
  named format \<open>M Y\<close>, with \<open>%Y\<close> for \<open>Y\<close>, with \<open>%b %d, %Y\<close> (abbreviated month,
  day of the month, year) for \<open>M d, Y\<close>, and with the format string itself for any other
  string. Whenever formatting raises, for a date object or for a truthy value without
  \<open>strftime\<close>, the result is \<open>str\<close> of the input.
\<close>

theorem format_date_cases:
  fixes strftime :: "'d \<Rightarrow> string \<Rightarrow> py_error + string"
  shows
  "(\<not> value_truthy v \<longrightarrow> format_date strftime str_date v fmt = [])
   \<and> format_date strftime str_date (PyDate d) ''M Y''
       = (case strftime d ''%b %Y'' of Inr text \<Rightarrow> text | Inl e \<Rightarrow> str_date d)
   \<and> format_date strftime str_date (PyDate d) ''Y''
       = (case strftime d ''%Y'' of Inr text \<Rightarrow> text | Inl e \<Rightarrow> str_date d)
   \<and> format_date strftime str_date (PyDate d) ''M d, Y''
       = (case strftime d ''%b %d, %Y'' of Inr text \<Rightarrow> text | Inl e \<Rightarrow> str_date d)
   \<and> (fmt \<notin> {''M Y'', ''Y'', ''M d, Y''} \<longrightarrow>
        format_date strftime str_date (PyDate d) fmt
          = (case strftime d fmt of Inr text \<Rightarrow> text | Inl e \<Rightarrow> str_date d))
   \<and> (value_truthy v \<and>
        value_strftime strftime v
          (if fmt = ''M Y'' then ''%b %Y'' else if fmt = ''Y'' then ''%Y''
           else if fmt = ''M d, Y'' then ''%b %d, %Y'' else fmt) = Inl e
        \<longrightarrow> format_date strftime str_date v fmt = value_str str_date v)"
  by (auto simp: format_date_def value_truthy_def value_strftime_def value_str_def
      split: sum.splits py_value.splits)

theorem format_date_cases_witness:
  "\<not> value_truthy (PyJson (JStr '''') :: unit py_value)
   \<and> format_date (\<lambda>d f. Inr ''Jan 2020'') (\<lambda>d. ''2020-01-05'') (PyJson (JStr '''') :: unit py_value) ''M Y'' = []
   \<and> value_truthy (PyJson (JStr ''2020-01'') :: unit py_value)
   \<and> format_date (\<lambda>d f. Inr ''Jan 2020'') (\<lambda>d. ''2020-01-05'') (PyJson (JStr ''2020-01'') :: unit py_value) ''M Y'' = ''2020-01''
   \<and> format_date (\<lambda>d f. if f = ''%b %Y'' then Inr ''Jan 2020'' else Inl ValueError) (\<lambda>d. ''2020-01-05'') (PyDate ()) ''M Y'' = ''Jan 2020''"
proof -
  let ?sf = "\<lambda>(d::unit) (f::string). Inr ''Jan 2020'' :: py_error + string"
  have h1: "\<not> value_truthy (PyJson (JStr '''') :: unit py_value)"
    by (simp add: value_truthy_def)
  have h2: "value_truthy (PyJson (JStr ''2020-01'') :: unit py_value)"
    by (simp add: value_truthy_def)
  have h3: "value_strftime ?sf (PyJson (JStr ''2020-01''))
          (if ''M Y'' = ''M Y'' then ''%b %Y'' else if ''M Y'' = ''Y'' then ''%Y''
           else if ''M Y'' = ''M d, Y'' then ''%b %d, %Y'' else ''M Y'') = Inl AttributeError"
    by (simp add: value_strftime_def)
  show ?thesis
    using h1 h2 h3
      format_date_cases [of "PyJson (JStr '''')" ?sf "\<lambda>d. ''2020-01-05''" "''M Y''" "()" AttributeError]
      format_date_cases [of "PyJson (JStr ''2020-01'')" ?sf "\<lambda>d. ''2020-01-05''" "''M Y''" "()" AttributeError]
      format_date_cases [of "PyJson JNull" "\<lambda>d f. if f = ''%b %Y'' then Inr ''Jan 2020'' else Inl ValueError" "\<lambda>d. ''2020-01-05''" "''M Y''" "()" AttributeError]
    by (simp add: value_str_def py_str_def)
qed

subsection \<open>Template configuration\<close>




subsection \<open>CV data API\<close>

lemma objects_get_none: "filter (\<lambda>r. profile_user_id r = uid) db = [] \<Longrightarrow> objects_get db uid = Inl DoesNotExist"
  by (simp add: objects_get_def)

lemma objects_get_one: "filter (\<lambda>r. profile_user_id r = uid) db = [r] \<Longrightarrow> objects_get db uid = Inr r"
  by (simp add: objects_get_def)

lemma same_pk_same_row:
  assumes "distinct (map profile_id db)" and "r \<in> set db" and "x \<in> set db"
    and "profile_id x = profile_id r"
  shows "x = r"
  using assms by (meson distinct_map inj_onD)

lemma filter_replace_row:
  assumes "P r" and "P r'"
  shows "filter P (map (\<lambda>x. if x = r then r' else x) db) = map (\<lambda>x. if x = r then r' else x) (filter P db)"
  using assms by (induction db) auto

lemma filter_after_save:
  assumes d: "distinct (map profile_id db)"
    and f: "filter (\<lambda>x. profile_user_id x = uid) db = [r]"
    and u: "profile_user_id r' = uid"
  shows "filter (\<lambda>x. profile_user_id x = uid)
           (map (\<lambda>x. if profile_id x = profile_id r then r' else x) db) = [r']"
proof -
  have "r \<in> set (filter (\<lambda>x. profile_user_id x = uid) db)"
    using f by simp
  then have rin: "r \<in> set db" and ru: "profile_user_id r = uid"
    by auto
  have "\<And>x. x \<in> set db \<Longrightarrow>
          (if profile_id x = profile_id r then r' else x) = (if x = r then r' else x)"
    using same_pk_same_row [OF d rin] by auto
  then have m: "map (\<lambda>x. if profile_id x = profile_id r then r' else x) db
        = map (\<lambda>x. if x = r then r' else x) db"
    by (rule map_cong [OF refl])
  have "filter (\<lambda>x. profile_user_id x = uid) (map (\<lambda>x. if x = r then r' else x) db)
        = map (\<lambda>x. if x = r then r' else x) (filter (\<lambda>x. profile_user_id x = uid) db)"
    using ru u by (intro filter_replace_row) auto
  then show ?thesis
    by (simp add: m f)
qed

lemma post_anonymous_answers_500:
  assumes "request_user request = Some AnonymousUser"
  shows "status (fst (cv_data_post strict db new_id now request)) \<in> {400, 500}"
  using assms
  by (auto simp: cv_data_post_def has_email_def error_response_def Let_def
      split: sum.splits prod.splits)

lemma put_example:
  "cv_data_put False
     [\<lparr>profile_id = ''a1'', profile_user_id = 3, profile_cv_content = JObj [(''summary'', JStr ''old'')],
       profile_template_name = ''classic-0'', profile_created_at = 5, profile_updated_at = 5\<rparr>]
     100
     \<lparr>request_path = ''/api/cv/data/'', request_user = Some (User 3 ''ann@example.com''),
      HTTP_X_FORWARDED_FOR = None, REMOTE_ADDR = None,
      request_data = JObj [(''cv_data'', JObj [(''title'', JStr ''Dr'')]),
                           (''selected_template'', JStr ''modern-1'')]\<rparr>
   = Some (saved_response ''CV data updated successfully''
            \<lparr>profile_id = ''a1'', profile_user_id = 3,
             profile_cv_content = JObj [(''summary'', JStr ''old''), (''title'', JStr ''Dr'')],
             profile_template_name = ''modern-1'', profile_created_at = 5, profile_updated_at = 100\<rparr>,
           [\<lparr>profile_id = ''a1'', profile_user_id = 3,
             profile_cv_content = JObj [(''summary'', JStr ''old''), (''title'', JStr ''Dr'')],
             profile_template_name = ''modern-1'', profile_created_at = 5, profile_updated_at = 100\<rparr>])"
  by (simp add: cv_data_put_def objects_get_def effective_user_id_def py_get_def content_update_def
      dict_update_def save_def template_name_column_def py_str_def has_email_def Let_def)

text \<open>
  C5: for a user without a row in the CV profile table, \<open>PUT /api/cv/data/\<close> answers
  404 with the message "CV data not found. Use POST to create new CV data." and leaves
  the table as it was, whatever the request body is.
\<close>

theorem put_without_profile:
  assumes "filter (\<lambda>r. profile_user_id r = effective_user_id request) db = []"
  shows "cv_data_put strict db now request
         = Some (\<lparr>status = 404,
                   body = JObj [(''error'', JStr ''CV data not found. Use POST to create new CV data.'')]\<rparr>,
                 db)"
  using assms by (simp add: cv_data_put_def objects_get_none error_response_def)

theorem put_without_profile_witness:
  "filter (\<lambda>r. profile_user_id r = effective_user_id
             \<lparr>request_path = ''/api/cv/data/'', request_user = Some (User 3 ''ann@example.com''),
              HTTP_X_FORWARDED_FOR = None, REMOTE_ADDR = None,
              request_data = JObj [(''cv_data'', JObj [(''summary'', JStr ''x'')])]\<rparr>)
      [\<lparr>profile_id = ''a1'', profile_user_id = 7, profile_cv_content = JObj [],
        profile_template_name = ''classic-0'', profile_created_at = 5, profile_updated_at = 5\<rparr>] = []
   \<and> cv_data_put False
        [\<lparr>profile_id = ''a1'', profile_user_id = 7, profile_cv_content = JObj [],
          profile_template_name = ''classic-0'', profile_created_at = 5, profile_updated_at = 5\<rparr>]
        100
        \<lparr>request_path = ''/api/cv/data/'', request_user = Some (User 3 ''ann@example.com''),
         HTTP_X_FORWARDED_FOR = None, REMOTE_ADDR = None,
         request_data = JObj [(''cv_data'', JObj [(''summary'', JStr ''x'')])]\<rparr>
       = Some (\<lparr>status = 404,
                 body = JObj [(''error'', JStr ''CV data not found. Use POST to create new CV data.'')]\<rparr>,
               [\<lparr>profile_id = ''a1'', profile_user_id = 7, profile_cv_content = JObj [],
                 profile_template_name = ''classic-0'', profile_created_at = 5,
                 profile_updated_at = 5\<rparr>])"
proof -
  let ?req = "\<lparr>request_path = ''/api/cv/data/'', request_user = Some (User 3 ''ann@example.com''),
              HTTP_X_FORWARDED_FOR = None, REMOTE_ADDR = None,
              request_data = JObj [(''cv_data'', JObj [(''summary'', JStr ''x'')])]\<rparr>"
  let ?db = "[\<lparr>profile_id = ''a1'', profile_user_id = 7, profile_cv_content = JObj [],
        profile_template_name = ''classic-0'', profile_created_at = 5, profile_updated_at = 5\<rparr>]"
  have h: "filter (\<lambda>r. profile_user_id r = effective_user_id ?req) ?db = []"
    by (simp add: effective_user_id_def)
  show ?thesis
    using h put_without_profile [OF h, of False 100] by simp
qed

text \<open>
  C1: in a table with distinct primary keys where the user has no row or one row,
  \<open>POST /api/cv/data/\<close> with the body
  \<open>{cv_data: {"summary": "x"}, visibility: {"summary": true}, selected_template: "modern-0"}\<close>
  followed by \<open>GET /api/cv/data/\<close> as the same user returns status 200, a \<open>cv_data\<close>
  document with \<open>summary\<close> = \<open>"x"\<close> and the sub-map \<open>visibility\<close> with
  \<open>summary\<close> = \<open>true\<close>, the same \<open>visibility\<close> map beside it, and
  \<open>selected_template\<close> = \<open>"modern-0"\<close>. A created row takes a primary key that is not
  in the table yet.
\<close>

theorem post_then_get_round_trip:
  assumes pk: "distinct (map profile_id db)"
    and fresh: "new_id \<notin> set (map profile_id db)"
    and one: "length (filter (\<lambda>r. profile_user_id r = effective_user_id req_post) db) \<le> 1"
    and data: "request_data req_post =
         JObj [(''cv_data'', JObj [(''summary'', JStr ''x'')]),
               (''visibility'', JObj [(''summary'', JBool True)]),
               (''selected_template'', JStr ''modern-0'')]"
    and same: "request_user req_get = request_user req_post"
  shows "cv_data_get (snd (cv_data_post strict db new_id now req_post)) req_get
         = \<lparr>status = 200,
            body = JObj [(''cv_data'', JObj [(''summary'', JStr ''x''),
                                            (''visibility'', JObj [(''summary'', JBool True)])]),
                         (''visibility'', JObj [(''summary'', JBool True)]),
                         (''selected_template'', JStr ''modern-0''),
                         (''last_updated'', JInt now)]\<rparr>"
proof -
  let ?uid = "effective_user_id req_post"
  let ?content = "JObj [(''summary'', JStr ''x''), (''visibility'', JObj [(''summary'', JBool True)])]"
  have uid: "effective_user_id req_get = ?uid"
    using same by (simp add: effective_user_id_def)
  have tn: "template_name_column strict (JStr ''modern-0'') = Inr ''modern-0''"
    by (simp add: template_name_column_def py_str_def)
  consider (none) "filter (\<lambda>r. profile_user_id r = ?uid) db = []"
    | (some) r where "filter (\<lambda>r. profile_user_id r = ?uid) db = [r]"
    using one by (cases "filter (\<lambda>r. profile_user_id r = ?uid) db") (auto simp: length_Suc_conv)
  then show ?thesis
  proof cases
    case none
    let ?p = "\<lparr>profile_id = new_id, profile_user_id = ?uid, profile_cv_content = ?content,
               profile_template_name = ''modern-0'', profile_created_at = now,
               profile_updated_at = now\<rparr>"
    have goc: "get_or_create strict db new_id now ?uid (JStr ''modern-0'') ?content
               = Inr (?p, True, db @ [?p])"
      using fresh by (simp add: get_or_create_def objects_get_none [OF none] tn Let_def)
    have db1: "snd (cv_data_post strict db new_id now req_post) = db @ [?p]"
      by (simp add: cv_data_post_def data py_get_def goc Let_def)
    have "filter (\<lambda>r. profile_user_id r = ?uid) (db @ [?p]) = [?p]"
      using none by simp
    then have "objects_get (db @ [?p]) ?uid = Inr ?p"
      by (rule objects_get_one)
    then show ?thesis
      by (simp add: db1 cv_data_get_def uid py_get_def Let_def)
  next
    case some
    let ?p = "r\<lparr>profile_cv_content := ?content, profile_template_name := ''modern-0'',
                  profile_updated_at := now\<rparr>"
    let ?db1 = "map (\<lambda>x. if profile_id x = profile_id r then ?p else x) db"
    have "r \<in> set (filter (\<lambda>r. profile_user_id r = ?uid) db)"
      using some by simp
    then have rin: "r \<in> set db" and ru: "profile_user_id r = ?uid"
      by auto
    have goc: "get_or_create strict db new_id now ?uid (JStr ''modern-0'') ?content
               = Inr (r, False, db)"
      by (simp add: get_or_create_def objects_get_one [OF some])
    have sv: "save strict db now r ?content (JStr ''modern-0'') = Inr (?p, ?db1)"
      using rin by (simp add: save_def tn Let_def)
    have db1: "snd (cv_data_post strict db new_id now req_post) = ?db1"
      by (simp add: cv_data_post_def data py_get_def goc sv Let_def)
    have "filter (\<lambda>x. profile_user_id x = ?uid) ?db1 = [?p]"
      by (rule filter_after_save [OF pk some]) (simp add: ru)
    then have "objects_get ?db1 ?uid = Inr ?p"
      by (rule objects_get_one)
    then show ?thesis
      by (simp add: db1 cv_data_get_def uid py_get_def Let_def)
  qed
qed

theorem post_then_get_round_trip_witness:
  "distinct (map profile_id
      [\<lparr>profile_id = ''a1'', profile_user_id = 3, profile_cv_content = JObj [(''summary'', JStr ''old'')],
        profile_template_name = ''classic-0'', profile_created_at = 5, profile_updated_at = 5\<rparr>])
   \<and> ''b2'' \<notin> set (map profile_id
      [\<lparr>profile_id = ''a1'', profile_user_id = 3, profile_cv_content = JObj [(''summary'', JStr ''old'')],
        profile_template_name = ''classic-0'', profile_created_at = 5, profile_updated_at = 5\<rparr>])
   \<and> cv_data_get
        (snd (cv_data_post False
           [\<lparr>profile_id = ''a1'', profile_user_id = 3,
             profile_cv_content = JObj [(''summary'', JStr ''old'')],
             profile_template_name = ''classic-0'', profile_created_at = 5,
             profile_updated_at = 5\<rparr>]
           ''b2'' 100
           \<lparr>request_path = ''/api/cv/data/'', request_user = Some (User 3 ''ann@example.com''),
            HTTP_X_FORWARDED_FOR = None, REMOTE_ADDR = None,
            request_data =
              JObj [(''cv_data'', JObj [(''summary'', JStr ''x'')]),
                    (''visibility'', JObj [(''summary'', JBool True)]),
                    (''selected_template'', JStr ''modern-0'')]\<rparr>))
        \<lparr>request_path = ''/api/cv/data/'', request_user = Some (User 3 ''ann@example.com''),
         HTTP_X_FORWARDED_FOR = None, REMOTE_ADDR = None, request_data = JNull\<rparr>
       = \<lparr>status = 200,
          body = JObj [(''cv_data'', JObj [(''summary'', JStr ''x''),
                                          (''visibility'', JObj [(''summary'', JBool True)])]),
                       (''visibility'', JObj [(''summary'', JBool True)]),
                       (''selected_template'', JStr ''modern-0''),
                       (''last_updated'', JInt 100)]\<rparr>"
proof -
  let ?db = "[\<lparr>profile_id = ''a1'', profile_user_id = 3,
               profile_cv_content = JObj [(''summary'', JStr ''old'')],
               profile_template_name = ''classic-0'', profile_created_at = 5,
               profile_updated_at = 5\<rparr>]"
  let ?post = "\<lparr>request_path = ''/api/cv/data/'', request_user = Some (User 3 ''ann@example.com''),
            HTTP_X_FORWARDED_FOR = None, REMOTE_ADDR = None,
            request_data =
              JObj [(''cv_data'', JObj [(''summary'', JStr ''x'')]),
                    (''visibility'', JObj [(''summary'', JBool True)]),
                    (''selected_template'', JStr ''modern-0'')]\<rparr>"
  let ?get = "\<lparr>request_path = ''/api/cv/data/'', request_user = Some (User 3 ''ann@example.com''),
         HTTP_X_FORWARDED_FOR = None, REMOTE_ADDR = None, request_data = JNull\<rparr>"
  have h1: "distinct (map profile_id ?db)"
    by simp
  have h2: "''b2'' \<notin> set (map profile_id ?db)"
    by simp
  have h3: "length (filter (\<lambda>r. profile_user_id r = effective_user_id ?post) ?db) \<le> 1"
    by simp
  have h4: "request_data ?post =
         JObj [(''cv_data'', JObj [(''summary'', JStr ''x'')]),
               (''visibility'', JObj [(''summary'', JBool True)]),
               (''selected_template'', JStr ''modern-0'')]"
    by simp
  have h5: "request_user ?get = request_user ?post"
    by simp
  show ?thesis
    using h1 h2 post_then_get_round_trip [OF h1 h2 h3 h4 h5, of False 100] by simp
qed


subsection \<open>Cached generation\<close>

lemma sort_key_same_map:
  fixes A B :: "(string \<times> 'a) list"
  assumes dA: "distinct (map fst A)" and dB: "distinct (map fst B)"
    and m: "map_of A = map_of B"
  shows "sort_key fst A = sort_key fst B"
proof (rule sort_key_inj_key_eq)
  have "set A = set B"
    using map_of_inject_set [OF dA dB] m by simp
  moreover have "distinct A" "distinct B"
    using dA dB by (simp_all add: distinct_map)
  ultimately have "mset A = mset B"
    by (simp add: set_eq_iff_mset_eq_distinct)
  then show "mset A = mset (sort_key fst B)"
    by simp
  show "inj_on fst (set A)"
    using dA by (simp add: distinct_map)
  show "sorted (map fst (sort_key fst B))"
    by simp
qed

lemma map_of_dumped:
  "map_of (map (\<lambda>kv. (fst kv, f (snd kv))) kvs) k = map_option f (map_of kvs k)"
  by (induction kvs) auto

lemma dumps_same_document:
  "same_document a b \<Longrightarrow> dumps a = dumps b"
proof (induction a b rule: same_document.induct)
  case (1 xs b)
  then obtain ys where b: "b = JArr ys" and l: "list_all2 same_document xs ys"
    by (cases b) auto
  have "list_all2 (\<lambda>x y. dumps x = dumps y) xs ys"
    using l "1.IH" [OF b] by (rule list.rel_mono_strong)
  then have "map dumps xs = map dumps ys"
    by (induction rule: list_all2_induct) auto
  then show ?case
    by (simp add: b)
next
  case (2 kvs b)
  then obtain kvs' where b: "b = JObj kvs'"
      and d: "distinct (map fst kvs)" and d': "distinct (map fst kvs')"
      and keys: "set (map fst kvs) = set (map fst kvs')"
      and vals: "list_all (\<lambda>kv. case map_of kvs' (fst kv) of
                            Some v' \<Rightarrow> same_document (snd kv) v' | None \<Rightarrow> False) kvs"
    by (cases b) auto
  let ?A = "map (\<lambda>kv. (fst kv, dumps (snd kv))) kvs"
  let ?B = "map (\<lambda>kv. (fst kv, dumps (snd kv))) kvs'"
  have fA: "map fst ?A = map fst kvs" and fB: "map fst ?B = map fst kvs'"
    by (simp_all add: comp_def)
  have "map_of ?A k = map_of ?B k" for k
  proof (cases "map_of kvs k")
    case None
    then have "k \<notin> set (map fst kvs)"
      by (simp add: map_of_eq_None_iff)
    then have "map_of kvs' k = None"
      using keys by (simp add: map_of_eq_None_iff)
    with None show ?thesis
      by (simp add: map_of_dumped)
  next
    case (Some v)
    then have kv: "(k, v) \<in> set kvs"
      by (rule map_of_SomeD)
    then obtain v' where v': "map_of kvs' k = Some v'" and s: "same_document v v'"
      using vals by (auto simp: list_all_iff split: option.splits)
    have "dumps (snd (k, v)) = dumps v'"
      by (rule "2.IH" [OF b kv]) (simp_all add: v' s)
    with Some v' show ?thesis
      by (simp add: map_of_dumped)
  qed
  then have "map_of ?A = map_of ?B"
    by (rule ext)
  then have "sort_key fst ?A = sort_key fst ?B"
    using d d' by (intro sort_key_same_map) (simp_all only: fA fB)
  then show ?case
    by (simp add: b)
qed simp_all

text \<open>
  C3: the cache key is \<open>pdf_cache:\<close> followed by the digest of the sorted-key JSON text
  of \<open>{cv_data, visibility, template_name}\<close>, so inputs that are equal as maps, whatever
  the insertion order of their keys, have the same cache key. A first call, with nothing
  cached under the key, whose generation returns PDF bytes (a PDF is never empty) returns
  them with \<open>was_cached = False\<close> and stores them under the key; a second call with equal
  inputs, made before the entry expires, returns the stored bytes with
  \<open>was_cached = True\<close> and leaves the cache as it is, whatever generation function it is
  given: the generation is not invoked.
\<close>

theorem cached_generation:
  fixes sha :: "string \<Rightarrow> string"
    and gen :: "json \<Rightarrow> json \<Rightarrow> string \<Rightarrow> py_error + bytes"
  assumes cv: "same_document cv_data cv_data'"
    and vis: "same_document visibility visibility'"
    and miss: "cache_lookup cache now_get (generate_cache_key sha cv_data visibility tn) = None"
    and gen: "gen cv_data visibility tn = Inr pdf"
    and nonempty: "pdf \<noteq> []"
    and live: "now_get' < now_set + cache_timeout"
  defines "key \<equiv> generate_cache_key sha cv_data visibility tn"
  defines "first \<equiv> generate_pdf_with_cache sha gen cache_timeout cache now_get now_set
                      cv_data visibility tn"
  shows "key = ''pdf_cache:'' @ sha (dumps (JObj [(''cv_data'', cv_data),
                                                   (''visibility'', visibility),
                                                   (''template_name'', JStr tn)]))
       \<and> generate_cache_key sha cv_data' visibility' tn = key
       \<and> fst first = Inr (pdf, False)
       \<and> cache_lookup (snd first) now_get' key = Some pdf
       \<and> (\<forall>gen' now_set'.
             generate_pdf_with_cache sha gen' cache_timeout (snd first) now_get' now_set'
               cv_data' visibility' tn
             = (Inr (pdf, True), snd first))"
proof -
  have "same_document (JObj [(''cv_data'', cv_data), (''visibility'', visibility),
                             (''template_name'', JStr tn)])
                      (JObj [(''cv_data'', cv_data'), (''visibility'', visibility'),
                             (''template_name'', JStr tn)])"
    using cv vis by simp
  then have k: "generate_cache_key sha cv_data' visibility' tn = key"
    unfolding key_def generate_cache_key_def Let_def
    by (simp only: dumps_same_document)
  have f: "first = (Inr (pdf, False), cache_set cache now_set key pdf cache_timeout)"
    using miss gen by (simp add: first_def generate_pdf_with_cache_def key_def Let_def)
  have hit: "cache_lookup (snd first) now_get' key = Some pdf"
    using live by (simp add: f cache_lookup_def cache_set_def)
  have "generate_pdf_with_cache sha gen' cache_timeout (snd first) now_get' now_set'
               cv_data' visibility' tn = (Inr (pdf, True), snd first)" for gen' now_set'
    using hit nonempty by (simp add: generate_pdf_with_cache_def k Let_def)
  then show ?thesis
    using k f hit by (simp add: key_def generate_cache_key_def Let_def)
qed

theorem cached_generation_witness:
  "same_document (JObj [(''summary'', JStr ''x''), (''skills'', JArr [JInt 1])])
                 (JObj [(''skills'', JArr [JInt 1]), (''summary'', JStr ''x'')])
   \<and> generate_cache_key (\<lambda>s. s) (JObj [(''skills'', JArr [JInt 1]), (''summary'', JStr ''x'')])
        (JObj [(''summary'', JBool True)]) ''modern-0''
     = generate_cache_key (\<lambda>s. s) (JObj [(''summary'', JStr ''x''), (''skills'', JArr [JInt 1])])
        (JObj [(''summary'', JBool True)]) ''modern-0''
   \<and> fst (generate_pdf_with_cache (\<lambda>s. s) (\<lambda>cv vis tn. Inr ''%PDF-1.7'') 3600 (\<lambda>k. None) 10 12
          (JObj [(''summary'', JStr ''x''), (''skills'', JArr [JInt 1])])
          (JObj [(''summary'', JBool True)]) ''modern-0'')
     = Inr (''%PDF-1.7'', False)
   \<and> fst (generate_pdf_with_cache (\<lambda>s. s) (\<lambda>cv vis tn. Inl (EngineError ''generation invoked'')) 3600
          (snd (generate_pdf_with_cache (\<lambda>s. s) (\<lambda>cv vis tn. Inr ''%PDF-1.7'') 3600 (\<lambda>k. None) 10 12
                  (JObj [(''summary'', JStr ''x''), (''skills'', JArr [JInt 1])])
                  (JObj [(''summary'', JBool True)]) ''modern-0''))
          100 101
          (JObj [(''skills'', JArr [JInt 1]), (''summary'', JStr ''x'')])
          (JObj [(''summary'', JBool True)]) ''modern-0'')
     = Inr (''%PDF-1.7'', True)"
proof -
  let ?cv = "JObj [(''summary'', JStr ''x''), (''skills'', JArr [JInt 1])]"
  let ?cv' = "JObj [(''skills'', JArr [JInt 1]), (''summary'', JStr ''x'')]"
  let ?vis = "JObj [(''summary'', JBool True)]"
  let ?gen = "\<lambda>(cv::json) (vis::json) (tn::string). Inr ''%PDF-1.7'' :: py_error + bytes"
  have h1: "same_document ?cv ?cv'"
    by auto
  have h2: "same_document ?vis ?vis"
    by simp
  have h3: "cache_lookup (\<lambda>k. None :: (bytes \<times> int) option) 10
              (generate_cache_key (\<lambda>s. s) ?cv ?vis ''modern-0'') = None"
    by (simp add: cache_lookup_def)
  have h4: "?gen ?cv ?vis ''modern-0'' = Inr ''%PDF-1.7''"
    by simp
  have h5: "''%PDF-1.7'' \<noteq> []"
    by simp
  have h6: "(100::int) < 12 + 3600"
    by simp
  show ?thesis
    using h1 cached_generation [OF h1 h2 h3 h4 h5 h6] by simp
qed

subsection \<open>Batch generation\<close>

lemma submit_all_ok:
  assumes "\<forall>r\<in>set requests. \<exists>args. batch_arguments r = Inr args"
  shows "\<exists>futures p'. submit_all p requests = Inr (futures, p')
           \<and> length futures = length requests
           \<and> (\<forall>i<length requests. batch_arguments (requests ! i) = Inr (futures ! i))
           \<and> p' = (submit_generation ^^ length requests) p"
  using assms
proof (induction requests arbitrary: p)
  case Nil
  then show ?case by simp
next
  case (Cons r rs)
  from Cons.prems obtain args where a: "batch_arguments r = Inr args"
    by auto
  from Cons.prems have "\<forall>r\<in>set rs. \<exists>args. batch_arguments r = Inr args"
    by simp
  from Cons.IH [OF this, of "submit_generation p"]
  obtain futures p' where s: "submit_all (submit_generation p) rs = Inr (futures, p')"
    and l: "length futures = length rs"
    and n: "\<forall>i<length rs. batch_arguments (rs ! i) = Inr (futures ! i)"
    and p': "p' = (submit_generation ^^ length rs) (submit_generation p)"
    by blast
  have "\<forall>i<length (r # rs). batch_arguments ((r # rs) ! i) = Inr ((args # futures) ! i)"
    using a n by (auto simp: nth_Cons split: nat.splits)
  then show ?case
    using a s l p' by (simp add: funpow_swap1)
qed

text \<open>
  C7: a batch of N requests, each a dict with the keys \<open>cv_data\<close> and \<open>visibility\<close>,
  returns N results whatever the order in which the generations finish and whichever of
  them raise: every request has a slot in that order, and the slot of a request holds
  \<open>None\<close> when its generation raised and the generated PDF bytes otherwise.
\<close>

theorem batch_partial_failure:
  fixes gen :: "json \<Rightarrow> json \<Rightarrow> json \<Rightarrow> json \<Rightarrow> py_error + bytes"
  assumes perm: "mset order = mset [0..<length requests]"
    and ok: "\<forall>r\<in>set requests. \<exists>args. batch_arguments r = Inr args"
  shows "\<exists>results p'.
           generate_pdf_batch gen p order requests = Inr (results, p')
           \<and> length results = length requests
           \<and> (\<forall>i<length requests. \<exists>j<length requests. order ! j = i)
           \<and> (\<forall>j<length requests. order ! j < length requests
                \<and> (\<forall>cv_data visibility template_name user_id.
                      batch_arguments (requests ! (order ! j))
                        = Inr (cv_data, visibility, template_name, user_id)
                      \<longrightarrow> results ! j
                            = (case gen cv_data visibility template_name user_id of
                                 Inr pdf \<Rightarrow> Some pdf
                               | Inl e \<Rightarrow> None)))"
proof -
  from submit_all_ok [OF ok, of p]
  obtain futures p' where s: "submit_all p requests = Inr (futures, p')"
    and l: "length futures = length requests"
    and n: "\<forall>i<length requests. batch_arguments (requests ! i) = Inr (futures ! i)"
    by blast
  let ?results = "map (\<lambda>i. future_result gen (futures ! i)) order"
  have lo: "length order = length requests"
    using perm by (metis length_upt minus_nat.diff_0 size_mset)
  have so: "set order = {0..<length requests}"
    using perm by (metis atLeastLessThan_upt set_mset_mset)
  have r: "generate_pdf_batch gen p order requests
           = Inr (?results, (generation_done ^^ length futures) p')"
    by (simp add: generate_pdf_batch_def s)
  have slots: "\<forall>i<length requests. \<exists>j<length requests. order ! j = i"
  proof (intro allI impI)
    fix i assume "i < length requests"
    then have "i \<in> set order"
      using so by simp
    then show "\<exists>j<length requests. order ! j = i"
      using lo by (auto simp: in_set_conv_nth)
  qed
  have vals: "order ! j < length requests
                \<and> (\<forall>cv_data visibility template_name user_id.
                      batch_arguments (requests ! (order ! j))
                        = Inr (cv_data, visibility, template_name, user_id)
                      \<longrightarrow> ?results ! j
                            = (case gen cv_data visibility template_name user_id of
                                 Inr pdf \<Rightarrow> Some pdf
                               | Inl e \<Rightarrow> None))" if "j < length requests" for j
  proof -
    have "order ! j \<in> set order"
      using that lo by simp
    then have b: "order ! j < length requests"
      using so by simp
    have "batch_arguments (requests ! (order ! j)) = Inr (futures ! (order ! j))"
      using n b by simp
    then show ?thesis
      using b that lo by (auto simp: future_result_def)
  qed
  show ?thesis
    using r lo slots vals by auto
qed

theorem batch_partial_failure_witness:
  "mset [2, 0, 1] = mset [0..<length [JObj [(''cv_data'', JStr ''a''), (''visibility'', JObj [])],
                                       JObj [(''cv_data'', JStr ''bad''), (''visibility'', JObj [])],
                                       JObj [(''cv_data'', JStr ''c''), (''visibility'', JObj []),
                                             (''template_name'', JStr ''modern-0'')]]]
   \<and> generate_pdf_batch
        (\<lambda>cv_data visibility template_name user_id.
           if cv_data = JStr ''bad'' then Inl (EngineError ''boom'') else Inr (''%PDF '' @ py_str cv_data))
        \<lparr>pool_size = 3, generation_count = 0, active_generations = 0\<rparr>
        [2, 0, 1]
        [JObj [(''cv_data'', JStr ''a''), (''visibility'', JObj [])],
         JObj [(''cv_data'', JStr ''bad''), (''visibility'', JObj [])],
         JObj [(''cv_data'', JStr ''c''), (''visibility'', JObj []),
               (''template_name'', JStr ''modern-0'')]]
     = Inr ([Some ''%PDF c'', Some ''%PDF a'', None],
            \<lparr>pool_size = 3, generation_count = 3, active_generations = 0\<rparr>)"
proof -
  let ?rs = "[JObj [(''cv_data'', JStr ''a''), (''visibility'', JObj [])],
              JObj [(''cv_data'', JStr ''bad''), (''visibility'', JObj [])],
              JObj [(''cv_data'', JStr ''c''), (''visibility'', JObj []),
                    (''template_name'', JStr ''modern-0'')]]"
  have h1: "mset [2, 0, 1] = mset [0..<length ?rs]"
    by (simp add: upt_rec)
  have h2: "\<forall>r\<in>set ?rs. \<exists>args. batch_arguments r = Inr args"
    by (simp add: batch_arguments_def py_item_def py_get_def)
  show ?thesis
    using h1 batch_partial_failure [OF h1 h2]
    by (simp add: generate_pdf_batch_def batch_arguments_def py_item_def py_get_def
        future_result_def submit_generation_def generation_done_def py_str_def
        eval_nat_numeral)
qed


subsection \<open>Fixed-window rate limiting\<close>

lemma same_window_before_expiry:
  fixes s t w :: int
  assumes "0 < w" and "s div w = t div w"
  shows "s < t + w"
proof -
  have "s = w * (t div w) + s mod w"
    using assms(2) by (metis mult_div_mod_eq)
  moreover have "t = w * (t div w) + t mod w"
    by simp
  moreover have "s mod w < w" and "0 \<le> t mod w"
    using assms(1) by simp_all
  ultimately show ?thesis
    by linarith
qed

lemma cache_get_after_set:
  "cache_get (cache_set c now k v timeout) s k dflt = (if now + timeout \<le> s then dflt else v)"
  by (simp add: cache_get_def cache_lookup_def cache_set_def)

lemma process_request_allowed:
  assumes rl: "lookup_rate_limit rate_limits (get_rate_limit_category (request_path req)) = Inr rl"
    and w: "0 < limit_window rl"
    and skip: "\<not> should_skip_rate_limiting (request_path req)"
    and key: "key = rate_limit_key (get_rate_limit_category (request_path req))
                      (get_client_identifier req) (t div limit_window rl)"
    and count: "cache_get c t key 0 = n"
    and below: "n < limit_requests rl"
  shows "fst (process_request rate_limits c t t' req) = None"
    and "snd (snd (process_request rate_limits c t t' req))
           = cache_set c t key (n + 1) (limit_window rl)"
  using assms by (simp_all add: process_request_def check_rate_limit_def Let_def)

lemma process_request_rejected:
  assumes rl: "lookup_rate_limit rate_limits (get_rate_limit_category (request_path req)) = Inr rl"
    and w: "0 < limit_window rl"
    and skip: "\<not> should_skip_rate_limiting (request_path req)"
    and key: "key = rate_limit_key (get_rate_limit_category (request_path req))
                      (get_client_identifier req) (t div limit_window rl)"
    and count: "cache_get c t key 0 = n"
    and reached: "limit_requests rl \<le> n"
  shows "process_request rate_limits c t t' req
         = (Some \<lparr>status = 429,
                  body = JObj [(''error'', JStr ''Rate limit exceeded''),
                               (''limit'', JInt (limit_requests rl)),
                               (''window'', JInt (limit_window rl)),
                               (''remaining'', JInt 0),
                               (''reset_time'', JInt ((t div limit_window rl + 1) * limit_window rl)),
                               (''retry_after'',
                                  JInt ((t div limit_window rl + 1) * limit_window rl - t'))]\<rparr>,
            None, c)"
  using assms by (simp add: process_request_def check_rate_limit_def Let_def)

lemma process_requests_append:
  "process_requests rate_limits c (xs @ ys)
   = (fst (process_requests rate_limits c xs)
        @ fst (process_requests rate_limits (snd (process_requests rate_limits c xs)) ys),
      snd (process_requests rate_limits (snd (process_requests rate_limits c xs)) ys))"
  by (induction xs arbitrary: c) (auto split: prod.splits)

lemma process_requests_allowed:
  assumes rl: "lookup_rate_limit rate_limits category = Inr rl"
    and w: "0 < limit_window rl"
    and all: "\<forall>(req, t, t') \<in> set rs.
                \<not> should_skip_rate_limiting (request_path req)
                \<and> get_rate_limit_category (request_path req) = category
                \<and> get_client_identifier req = client
                \<and> t div limit_window rl = k"
    and inv: "\<forall>t. t div limit_window rl = k \<longrightarrow> cache_get c t (rate_limit_key category client k) 0 = n"
    and room: "n + int (length rs) \<le> limit_requests rl"
  shows "fst (process_requests rate_limits c rs) = replicate (length rs) None
       \<and> (\<forall>t. t div limit_window rl = k \<longrightarrow>
             cache_get (snd (process_requests rate_limits c rs)) t (rate_limit_key category client k) 0
               = n + int (length rs))"
  using all inv room
proof (induction rs arbitrary: c n)
  case Nil
  then show ?case by simp
next
  case (Cons x rs)
  obtain req t t' where x: "x = (req, t, t')"
    by (cases x) auto
  let ?key = "rate_limit_key category client k"
  let ?c' = "cache_set c t ?key (n + 1) (limit_window rl)"
  from Cons.prems(1) x have skip: "\<not> should_skip_rate_limiting (request_path req)"
    and cat: "get_rate_limit_category (request_path req) = category"
    and cl: "get_client_identifier req = client"
    and tk: "t div limit_window rl = k"
    by auto
  have count: "cache_get c t ?key 0 = n"
    using Cons.prems(2) tk by simp
  have below: "n < limit_requests rl"
    using Cons.prems(3) by simp
  have rl': "lookup_rate_limit rate_limits (get_rate_limit_category (request_path req)) = Inr rl"
    using rl cat by simp
  have key: "?key = rate_limit_key (get_rate_limit_category (request_path req))
                      (get_client_identifier req) (t div limit_window rl)"
    using cat cl tk by simp
  note step = process_request_allowed [OF rl' w skip key count below, of t']
  have inv': "\<forall>s. s div limit_window rl = k \<longrightarrow> cache_get ?c' s ?key 0 = n + 1"
  proof (intro allI impI)
    fix s assume "s div limit_window rl = k"
    then have "s < t + limit_window rl"
      using same_window_before_expiry [OF w, of s t] tk by simp
    then show "cache_get ?c' s ?key 0 = n + 1"
      by (simp add: cache_get_after_set)
  qed
  have rest: "\<forall>(req, t, t') \<in> set rs.
                \<not> should_skip_rate_limiting (request_path req)
                \<and> get_rate_limit_category (request_path req) = category
                \<and> get_client_identifier req = client
                \<and> t div limit_window rl = k"
    using Cons.prems(1) by simp
  have room': "(n + 1) + int (length rs) \<le> limit_requests rl"
    using Cons.prems(3) by simp
  note ih = Cons.IH [OF rest inv' room']
  obtain r i c1 where pr: "process_request rate_limits c t t' req = (r, i, c1)"
    by (cases "process_request rate_limits c t t' req") auto
  with step have r: "r = None" and c1: "c1 = ?c'"
    by simp_all
  show ?case
    using ih by (auto simp: x pr r c1 algebra_simps split: prod.splits)
qed

lemma allowed_request_increments_count:
  assumes rl: "lookup_rate_limit rate_limits (get_rate_limit_category (request_path req)) = Inr rl"
    and w: "0 < limit_window rl"
    and skip: "\<not> should_skip_rate_limiting (request_path req)"
    and key: "key = rate_limit_key (get_rate_limit_category (request_path req))
                      (get_client_identifier req) (t div limit_window rl)"
    and allowed: "fst (process_request rate_limits c t t' req) = None"
  shows "cache_get (snd (snd (process_request rate_limits c t t' req))) t key 0
         = cache_get c t key 0 + 1"
proof (cases "cache_get c t key 0 < limit_requests rl")
  case True
  from process_request_allowed(2) [OF rl w skip key refl True, of t'] w show ?thesis
    by (simp add: cache_get_after_set)
next
  case False
  then have "limit_requests rl \<le> cache_get c t key 0"
    by simp
  from process_request_rejected [OF rl w skip key refl this, of t'] allowed show ?thesis
    by simp
qed

text \<open>
  C2: take a category whose limit is \<open>limit\<close> requests per window of \<open>w\<close> seconds, a
  client, and \<open>limit + 1\<close> rate-limited requests of that client and category with clock
  reads in one window \<open>k = now div w\<close>, starting with no counter under the key
  \<open>rate_limit:<category>:<client id>:<k>\<close>. The first \<open>limit\<close> requests are let
  through and the last one is answered with HTTP 429 and the body fields
  \<open>remaining = 0\<close>, \<open>reset_time = (k + 1) * w\<close> and
  \<open>retry_after = reset_time - now\<close>, where \<open>now\<close> is the clock read when the response
  is built. After the first \<open>i\<close> requests the stored count is \<open>i\<close>: every allowed
  request increments it.
\<close>

theorem fixed_window_rate_limit:
  fixes rs :: "(request \<times> int \<times> int) list"
  assumes rl: "lookup_rate_limit rate_limits category = Inr rl"
    and w: "0 < limit_window rl"
    and lim: "0 \<le> limit_requests rl"
    and all: "\<forall>(req, t, t') \<in> set (rs @ [(req_last, t_last, t_resp)]).
                \<not> should_skip_rate_limiting (request_path req)
                \<and> get_rate_limit_category (request_path req) = category
                \<and> get_client_identifier req = client
                \<and> t div limit_window rl = k"
    and len: "length rs = nat (limit_requests rl)"
    and fresh: "cache (rate_limit_key category client k) = None"
  shows "fst (process_requests rate_limits cache (rs @ [(req_last, t_last, t_resp)]))
         = replicate (nat (limit_requests rl)) None
           @ [Some \<lparr>status = 429,
                    body = JObj [(''error'', JStr ''Rate limit exceeded''),
                                 (''limit'', JInt (limit_requests rl)),
                                 (''window'', JInt (limit_window rl)),
                                 (''remaining'', JInt 0),
                                 (''reset_time'', JInt ((k + 1) * limit_window rl)),
                                 (''retry_after'', JInt ((k + 1) * limit_window rl - t_resp))]\<rparr>]
       \<and> (\<forall>i \<le> nat (limit_requests rl). \<forall>t. t div limit_window rl = k \<longrightarrow>
             cache_get (snd (process_requests rate_limits cache (take i rs))) t
               (rate_limit_key category client k) 0 = int i)
       \<and> rate_limit_key category client k
           = ''rate_limit:'' @ category @ '':'' @ client @ '':'' @ str_int k"
proof -
  let ?key = "rate_limit_key category client k"
  let ?w = "limit_window rl"
  have inv0: "\<forall>t. t div ?w = k \<longrightarrow> cache_get cache t ?key 0 = 0"
    using fresh by (simp add: cache_get_def cache_lookup_def)
  have all_rs: "\<forall>(req, t, t') \<in> set rs.
                \<not> should_skip_rate_limiting (request_path req)
                \<and> get_rate_limit_category (request_path req) = category
                \<and> get_client_identifier req = client
                \<and> t div ?w = k"
    using all by simp
  have last: "\<not> should_skip_rate_limiting (request_path req_last)"
    "get_rate_limit_category (request_path req_last) = category"
    "get_client_identifier req_last = client" "t_last div ?w = k"
    using all by simp_all
  have counts: "fst (process_requests rate_limits cache (take i rs)) = replicate i None
       \<and> (\<forall>t. t div ?w = k \<longrightarrow>
             cache_get (snd (process_requests rate_limits cache (take i rs))) t ?key 0 = int i)"
    if "i \<le> nat (limit_requests rl)" for i
  proof -
    have a: "\<forall>(req, t, t') \<in> set (take i rs).
                \<not> should_skip_rate_limiting (request_path req)
                \<and> get_rate_limit_category (request_path req) = category
                \<and> get_client_identifier req = client
                \<and> t div ?w = k"
      using all_rs by (auto dest: in_set_takeD)
    have l: "length (take i rs) = i"
      using that len by simp
    have "0 + int (length (take i rs)) \<le> limit_requests rl"
      using that l lim by simp
    from process_requests_allowed [OF rl w a inv0 this] show ?thesis
      unfolding l by simp
  qed
  from counts [of "nat (limit_requests rl)"] len
  have run: "fst (process_requests rate_limits cache rs) = replicate (nat (limit_requests rl)) None"
    and full: "cache_get (snd (process_requests rate_limits cache rs)) t_last ?key 0
               = limit_requests rl"
    using last(4) lim by simp_all
  have rl': "lookup_rate_limit rate_limits (get_rate_limit_category (request_path req_last)) = Inr rl"
    using rl last(2) by simp
  have key: "?key = rate_limit_key (get_rate_limit_category (request_path req_last))
                      (get_client_identifier req_last) (t_last div ?w)"
    using last by simp
  have "process_request rate_limits (snd (process_requests rate_limits cache rs)) t_last t_resp req_last
         = (Some \<lparr>status = 429,
                  body = JObj [(''error'', JStr ''Rate limit exceeded''),
                               (''limit'', JInt (limit_requests rl)),
                               (''window'', JInt ?w),
                               (''remaining'', JInt 0),
                               (''reset_time'', JInt ((k + 1) * ?w)),
                               (''retry_after'', JInt ((k + 1) * ?w - t_resp))]\<rparr>,
            None, snd (process_requests rate_limits cache rs))"
    using process_request_rejected [OF rl' w last(1) key full order_refl, of t_resp] last(4)
    by simp
  then have "fst (process_requests rate_limits cache (rs @ [(req_last, t_last, t_resp)]))
         = replicate (nat (limit_requests rl)) None
           @ [Some \<lparr>status = 429,
                    body = JObj [(''error'', JStr ''Rate limit exceeded''),
                                 (''limit'', JInt (limit_requests rl)),
                                 (''window'', JInt ?w),
                                 (''remaining'', JInt 0),
                                 (''reset_time'', JInt ((k + 1) * ?w)),
                                 (''retry_after'', JInt ((k + 1) * ?w - t_resp))]\<rparr>]"
    by (simp add: process_requests_append run)
  then show ?thesis
    using counts by (simp add: rate_limit_key_def)
qed


theorem fixed_window_rate_limit_witness:
  "lookup_rate_limit ENHANCED_RATE_LIMITS ''pdf_generation''
     = Inr \<lparr>limit_requests = 10, limit_window = 900\<rparr>
   \<and> get_rate_limit_category ''/api/pdf/generate-pdf/'' = ''pdf_generation''
   \<and> fst (process_requests ENHANCED_RATE_LIMITS (\<lambda>k. None)
          (replicate 10
             (\<lparr>request_path = ''/api/pdf/generate-pdf/'', request_user = Some AnonymousUser,
               HTTP_X_FORWARDED_FOR = None, REMOTE_ADDR = Some ''10.0.0.1'',
               request_data = JNull\<rparr>, 1800, 1800)
           @ [(\<lparr>request_path = ''/api/pdf/generate-pdf/'', request_user = Some AnonymousUser,
                HTTP_X_FORWARDED_FOR = None, REMOTE_ADDR = Some ''10.0.0.1'',
                request_data = JNull\<rparr>, 2000, 2001)]))
     = replicate 10 None
       @ [Some \<lparr>status = 429,
                body = JObj [(''error'', JStr ''Rate limit exceeded''),
                             (''limit'', JInt 10),
                             (''window'', JInt 900),
                             (''remaining'', JInt 0),
                             (''reset_time'', JInt 2700),
                             (''retry_after'', JInt 699)]\<rparr>]"
proof -
  let ?req = "\<lparr>request_path = ''/api/pdf/generate-pdf/'', request_user = Some AnonymousUser,
               HTTP_X_FORWARDED_FOR = None, REMOTE_ADDR = Some ''10.0.0.1'',
               request_data = JNull\<rparr>"
  let ?rl = "\<lparr>limit_requests = 10, limit_window = 900\<rparr>"
  have h1: "lookup_rate_limit ENHANCED_RATE_LIMITS ''pdf_generation'' = Inr ?rl"
    by (simp add: lookup_rate_limit_def ENHANCED_RATE_LIMITS_def)
  have h2: "0 < limit_window ?rl"
    by simp
  have h3: "0 \<le> limit_requests ?rl"
    by simp
  have cat: "get_rate_limit_category ''/api/pdf/generate-pdf/'' = ''pdf_generation''"
    by (simp add: get_rate_limit_category_def)
  have skip: "\<not> should_skip_rate_limiting ''/api/pdf/generate-pdf/''"
    by (simp add: should_skip_rate_limiting_def startswith_def)
  have cl: "get_client_identifier ?req = ''ip:10.0.0.1''"
    by (simp add: get_client_identifier_def)
  have h4: "\<forall>(req, t, t') \<in> set (replicate 10 (?req, 1800, 1800) @ [(?req, 2000, 2001)]).
                \<not> should_skip_rate_limiting (request_path req)
                \<and> get_rate_limit_category (request_path req) = ''pdf_generation''
                \<and> get_client_identifier req = ''ip:10.0.0.1''
                \<and> t div limit_window ?rl = 2"
    using cat skip cl by simp
  have h5: "length (replicate 10 (?req, 1800::int, 1800::int)) = nat (limit_requests ?rl)"
    by simp
  have h6: "(\<lambda>k. None :: (int \<times> int) option) (rate_limit_key ''pdf_generation'' ''ip:10.0.0.1'' 2) = None"
    by simp
  show ?thesis
    using h1 cat fixed_window_rate_limit [OF h1 h2 h3 h4 h5 h6] by simp
qed

end
